theory Spec2Isabelle
  imports Main
begin

section \<open>Values, records and results\<close>

text \<open>
  Go's \<^verbatim>\<open>any\<close> is a dynamically typed value. The constructors below are the dynamic
  types the record operations can tell apart: a type assertion \<^verbatim>\<open>v.(string)\<close> succeeds
  on \<open>AString\<close> only, \<^verbatim>\<open>v.(map[string]any)\<close> on \<open>MapStringAny\<close> only. The attributes
  block written by the operations is a \<^verbatim>\<open>map[string]string\<close>; a slice of any element
  type is \<open>SliceOfAny\<close>, a struct is the list of its fields. A value of type
  \<^verbatim>\<open>map[string]any\<close> is \<^verbatim>\<open>nil\<close> (\<open>None\<close>) or an allocated map (\<open>Some\<close> of a finite
  map from field names to values).
\<close>

datatype any =
    ANil
  | AString string
  | ABool bool
  | AInt int
  | MapStringString "string \<Rightarrow> string option"
  | MapStringAny "(string \<Rightarrow> any option) option"
  | SliceOfAny "any list"
  | Struct "(string \<times> any) list"

type_synonym recordMap = "(string \<Rightarrow> any option) option"

text \<open>
  An \<^verbatim>\<open>error\<close> value is either made by \<^verbatim>\<open>errors.New\<close> in this package, or handed over
  by a collaborator (transport, JSON codec, decoder), or the aggregate of the failing
  entries of a composite response (index, then the descriptors of that entry).
\<close>

record errorDescriptor =
  errorCode :: string
  message :: string

datatype error =
    ErrorsNew string
  | Foreign string
  | RemoteApplicationError "(nat \<times> errorDescriptor list) list"

text \<open>A Go call either returns or panics; a panic is not an \<^verbatim>\<open>error\<close> value.\<close>

datatype 'a go = Return 'a | Panic string

text \<open>
  The three operations on a map that the code uses. Reading \<^verbatim>\<open>m[k]\<close> yields no value
  for a missing key and for a \<^verbatim>\<open>nil\<close> map; \<^verbatim>\<open>delete(m, k)\<close> does nothing on a
  \<^verbatim>\<open>nil\<close> map; the assignment \<^verbatim>\<open>m[k] = v\<close> panics on a \<^verbatim>\<open>nil\<close> map.
\<close>

definition mapIndex :: "recordMap \<Rightarrow> string \<Rightarrow> any option" where
  "mapIndex m k = (case m of None \<Rightarrow> None | Some f \<Rightarrow> f k)"

definition mapDelete :: "recordMap \<Rightarrow> string \<Rightarrow> recordMap" where
  "mapDelete m k = (case m of None \<Rightarrow> None | Some f \<Rightarrow> Some (f(k := None)))"

definition mapAssign :: "recordMap \<Rightarrow> string \<Rightarrow> any \<Rightarrow> recordMap go" where
  "mapAssign m k v =
     (case m of
        None \<Rightarrow> Panic ''assignment to entry in nil map''
      | Some f \<Rightarrow> Return (Some (f(k \<mapsto> v))))"

text \<open>\<^verbatim>\<open>v, ok := x.(string)\<close>: the zero string and \<open>False\<close> unless \<open>x\<close> holds a string.\<close>

definition assertString :: "any option \<Rightarrow> string \<times> bool" where
  "assertString x = (case x of Some (AString s) \<Rightarrow> (s, True) | _ \<Rightarrow> ('''', False))"

definition FormatBool :: "bool \<Rightarrow> string" where
  "FormatBool b = (if b then ''true'' else ''false'')"

section \<open>Transport and codec collaborators\<close>

record Response =
  Status :: string
  StatusCode :: int
  Body :: string

definition StatusOK :: int where "StatusOK = 200"
definition StatusCreated :: int where "StatusCreated = 201"
definition StatusNoContent :: int where "StatusNoContent = 204"

text \<open>
  Modelled from the spec: the constant \<^verbatim>\<open>jsonType\<close> is used by every operation but is
  declared in a file that is not part of the sources; the spec gives the content type of
  write and delete calls as \<^verbatim>\<open>application/json\<close>.
\<close>

definition jsonType :: string where
  "jsonType = ''application/json''"

text \<open>The five arguments of \<^verbatim>\<open>doRequest(method, uri, content, auth, body)\<close>.\<close>

record 'auth request =
  reqMethod :: string
  reqUri :: string
  reqContent :: string
  reqAuth :: "'auth"
  reqBody :: string

record sObjectCollection =
  AllOrNone :: string
  Records :: "recordMap list"

text \<open>What is handed to \<^verbatim>\<open>json.Marshal\<close>: one record, or a collection payload.\<close>

datatype payload = RecordPayload recordMap | CollectionPayload sObjectCollection

text \<open>
  One entry of a composite response: success, optionally with the assigned identifier,
  or failure with its error descriptors.
\<close>

datatype recordOutcome = RecordSuccess "string option" | RecordFailure "errorDescriptor list"

text \<open>
  The functions this file calls but does not define: the struct decoder
  \<^verbatim>\<open>mapstructure.Decode\<close> (at the two target types it is used with),
  \<^verbatim>\<open>json.Marshal\<close>, the transport \<^verbatim>\<open>doRequest\<close>, the interpreter of a failed
  exchange \<^verbatim>\<open>processSalesforceError\<close>, and the JSON decoding of a composite response
  body into its per-record entries. They are parameters of every operation. The decoder
  may leave a \<^verbatim>\<open>nil\<close> map, alone or as an element of the slice.
\<close>

record 'auth collaborators =
  mapstructure_Decode_map :: "any \<Rightarrow> error + recordMap"
  mapstructure_Decode_slice :: "any \<Rightarrow> error + recordMap list"
  json_Marshal :: "payload \<Rightarrow> error + string"
  doRequest :: "'auth request \<Rightarrow> error + Response"
  processSalesforceError :: "Response \<Rightarrow> error option"
  decodeResults :: "Response \<Rightarrow> recordOutcome list"

text \<open>
  Each operation returns its result together with the calls it made, in order, to the
  serializer and to the transport.
\<close>

datatype 'auth event = JsonMarshal payload | DoRequest "'auth request"

section \<open>Record codec\<close>

definition decodeError :: error where
  "decodeError =
     ErrorsNew ''issue decoding salesforce object, need a key value pair (custom struct or map)''"

definition convertToMap :: "'auth collaborators \<Rightarrow> any \<Rightarrow> error + recordMap" where
  "convertToMap env obj =
     (case obj of
        MapStringAny m \<Rightarrow> Inr m
      | _ \<Rightarrow>
          (case mapstructure_Decode_map env obj of
             Inl err \<Rightarrow> Inl decodeError
           | Inr recordMap \<Rightarrow> Inr recordMap))"

text \<open>
  The guard tests for \<^verbatim>\<open>map[string]any\<close>, and its branch then asserts, unchecked, the
  type \<^verbatim>\<open>[]map[string]any\<close> of the same value: that assertion panics.
\<close>

definition convertToSliceOfMaps ::
  "'auth collaborators \<Rightarrow> any \<Rightarrow> (error + recordMap list) go" where
  "convertToSliceOfMaps env obj =
     (case obj of
        MapStringAny m \<Rightarrow>
          Panic ''interface conversion: interface {} is map[string]interface {}, not []map[string]interface {}''
      | _ \<Rightarrow>
          (case mapstructure_Decode_slice env obj of
             Inl err \<Rightarrow> Return (Inl decodeError)
           | Inr recordMap \<Rightarrow> Return (Inr recordMap)))"

section \<open>Single-record operations\<close>

definition attributes :: "string \<Rightarrow> any" where
  "attributes sObjectName = MapStringString [''type'' \<mapsto> sObjectName]"

definition idNotFound :: error where
  "idNotFound = ErrorsNew ''salesforce id not found in object data''"

definition externalIdNotFound :: "string \<Rightarrow> string \<Rightarrow> error" where
  "externalIdNotFound fieldName sObjectName =
     ErrorsNew (''salesforce externalId: '' @ fieldName @ '' not found in '' @ sObjectName @
       '' data. make sure to append custom fields with '' @ [CHR 0x27] @ ''__c'' @ [CHR 0x27])"

definition doInsertOne ::
  "'auth collaborators \<Rightarrow> 'auth \<Rightarrow> string \<Rightarrow> any \<Rightarrow> error option go \<times> 'auth event list" where
  "doInsertOne env auth sObjectName record =
     (case convertToMap env record of
        Inl err \<Rightarrow> (Return (Some err), [])
      | Inr recordMap0 \<Rightarrow>
          (case mapAssign recordMap0 ''attributes'' (attributes sObjectName) of
             Panic p \<Rightarrow> (Panic p, [])
           | Return recordMap1 \<Rightarrow>
               (let recordMap = mapDelete recordMap1 ''Id'';
                    m = JsonMarshal (RecordPayload recordMap)
                in case json_Marshal env (RecordPayload recordMap) of
                     Inl err \<Rightarrow> (Return (Some err), [m])
                   | Inr body \<Rightarrow>
                       (let r = \<lparr>reqMethod = ''POST'', reqUri = ''/sobjects/'' @ sObjectName,
                                 reqContent = jsonType, reqAuth = auth, reqBody = body\<rparr>
                        in case doRequest env r of
                             Inl err \<Rightarrow> (Return (Some err), [m, DoRequest r])
                           | Inr resp \<Rightarrow>
                               if StatusCode resp \<noteq> StatusCreated
                               then (Return (processSalesforceError env resp), [m, DoRequest r])
                               else (Return None, [m, DoRequest r])))))"

definition doUpdateOne ::
  "'auth collaborators \<Rightarrow> 'auth \<Rightarrow> string \<Rightarrow> any \<Rightarrow> error option go \<times> 'auth event list" where
  "doUpdateOne env auth sObjectName record =
     (case convertToMap env record of
        Inl err \<Rightarrow> (Return (Some err), [])
      | Inr recordMap0 \<Rightarrow>
          (case assertString (mapIndex recordMap0 ''Id'') of
             (recordId, ok) \<Rightarrow>
               if \<not> ok \<or> recordId = '''' then (Return (Some idNotFound), [])
               else
                 (case mapAssign recordMap0 ''attributes'' (attributes sObjectName) of
                    Panic p \<Rightarrow> (Panic p, [])
                  | Return recordMap1 \<Rightarrow>
                      (let recordMap = mapDelete recordMap1 ''Id'';
                           m = JsonMarshal (RecordPayload recordMap)
                       in case json_Marshal env (RecordPayload recordMap) of
                            Inl err \<Rightarrow> (Return (Some err), [m])
                          | Inr body \<Rightarrow>
                              (let r = \<lparr>reqMethod = ''PATCH'',
                                        reqUri = ''/sobjects/'' @ sObjectName @ ''/'' @ recordId,
                                        reqContent = jsonType, reqAuth = auth, reqBody = body\<rparr>
                               in case doRequest env r of
                                    Inl err \<Rightarrow> (Return (Some err), [m, DoRequest r])
                                  | Inr resp \<Rightarrow>
                                      if StatusCode resp \<noteq> StatusNoContent
                                      then (Return (processSalesforceError env resp),
                                            [m, DoRequest r])
                                      else (Return None, [m, DoRequest r]))))))"

definition doUpsertOne ::
  "'auth collaborators \<Rightarrow> 'auth \<Rightarrow> string \<Rightarrow> string \<Rightarrow> any \<Rightarrow>
     error option go \<times> 'auth event list" where
  "doUpsertOne env auth sObjectName fieldName record =
     (case convertToMap env record of
        Inl err \<Rightarrow> (Return (Some err), [])
      | Inr recordMap0 \<Rightarrow>
          (case assertString (mapIndex recordMap0 fieldName) of
             (externalIdValue, ok) \<Rightarrow>
               if \<not> ok \<or> externalIdValue = ''''
               then (Return (Some (externalIdNotFound fieldName sObjectName)), [])
               else
                 (case mapAssign recordMap0 ''attributes'' (attributes sObjectName) of
                    Panic p \<Rightarrow> (Panic p, [])
                  | Return recordMap1 \<Rightarrow>
                      (let recordMap2 = mapDelete recordMap1 ''Id'';
                           recordMap = mapDelete recordMap2 fieldName;
                           m = JsonMarshal (RecordPayload recordMap)
                       in case json_Marshal env (RecordPayload recordMap) of
                            Inl err \<Rightarrow> (Return (Some err), [m])
                          | Inr body \<Rightarrow>
                              (let r = \<lparr>reqMethod = ''PATCH'',
                                        reqUri = ''/sobjects/'' @ sObjectName @ ''/'' @
                                                 fieldName @ ''/'' @ externalIdValue,
                                        reqContent = jsonType, reqAuth = auth, reqBody = body\<rparr>
                               in case doRequest env r of
                                    Inl err \<Rightarrow> (Return (Some err), [m, DoRequest r])
                                  | Inr resp \<Rightarrow>
                                      if StatusCode resp \<noteq> StatusOK
                                      then (Return (processSalesforceError env resp),
                                            [m, DoRequest r])
                                      else (Return None, [m, DoRequest r]))))))"

definition doDeleteOne ::
  "'auth collaborators \<Rightarrow> 'auth \<Rightarrow> string \<Rightarrow> any \<Rightarrow> error option go \<times> 'auth event list" where
  "doDeleteOne env auth sObjectName record =
     (case convertToMap env record of
        Inl err \<Rightarrow> (Return (Some err), [])
      | Inr recordMap \<Rightarrow>
          (case assertString (mapIndex recordMap ''Id'') of
             (recordId, ok) \<Rightarrow>
               if \<not> ok \<or> recordId = '''' then (Return (Some idNotFound), [])
               else
                 (let r = \<lparr>reqMethod = ''DELETE'',
                           reqUri = ''/sobjects/'' @ sObjectName @ ''/'' @ recordId,
                           reqContent = jsonType, reqAuth = auth, reqBody = ''''\<rparr>
                  in case doRequest env r of
                       Inl err \<Rightarrow> (Return (Some err), [DoRequest r])
                     | Inr resp \<Rightarrow>
                         if StatusCode resp \<noteq> StatusNoContent
                         then (Return (processSalesforceError env resp), [DoRequest r])
                         else (Return None, [DoRequest r]))))"

section \<open>Collection operations\<close>

text \<open>
  Modelled from the spec: \<^verbatim>\<open>processSalesforceResponse\<close> is called by every collection
  operation, but the file that defines it is not part of the sources. The spec: after an
  exchange with status OK the response body, a per-record ordered outcome list, is
  inspected; any record reporting failure makes the call fail with an aggregated error
  enumerating every failing record's index, codes and messages; the scan does not stop at
  the first failure.
\<close>

fun failingRecords :: "nat \<Rightarrow> recordOutcome list \<Rightarrow> (nat \<times> errorDescriptor list) list" where
  "failingRecords i [] = []"
| "failingRecords i (RecordSuccess ident # results) = failingRecords (Suc i) results"
| "failingRecords i (RecordFailure errs # results) = (i, errs) # failingRecords (Suc i) results"

definition processSalesforceResponse :: "'auth collaborators \<Rightarrow> Response \<Rightarrow> error option" where
  "processSalesforceResponse env resp =
     (case failingRecords 0 (decodeResults env resp) of
        [] \<Rightarrow> None
      | failures \<Rightarrow> Some (RemoteApplicationError failures))"

definition tooManyRecords :: error where
  "tooManyRecords = ErrorsNew ''salesforce composite api call supports up to 200 records at once''"

text \<open>
  The \<^verbatim>\<open>for i := range recordMap\<close> loops, as recursion over the slice, each step in the
  order of the source. The insert loop deletes \<^verbatim>\<open>Id\<close> and then assigns the attributes
  block; the update and upsert loops assign the attributes block first and check the
  identifying field after it, returning from the operation at the first record that fails
  the check. An assignment into a \<^verbatim>\<open>nil\<close> record panics and ends the loop there.
\<close>

fun insertLoop :: "string \<Rightarrow> recordMap list \<Rightarrow> recordMap list go" where
  "insertLoop sObjectName [] = Return []"
| "insertLoop sObjectName (r # rs) =
     (let r1 = mapDelete r ''Id''
      in case mapAssign r1 ''attributes'' (attributes sObjectName) of
           Panic p \<Rightarrow> Panic p
         | Return r2 \<Rightarrow>
             (case insertLoop sObjectName rs of
                Panic p \<Rightarrow> Panic p
              | Return rs2 \<Rightarrow> Return (r2 # rs2)))"

fun updateLoop :: "string \<Rightarrow> recordMap list \<Rightarrow> (error + recordMap list) go" where
  "updateLoop sObjectName [] = Return (Inr [])"
| "updateLoop sObjectName (r # rs) =
     (case mapAssign r ''attributes'' (attributes sObjectName) of
        Panic p \<Rightarrow> Panic p
      | Return r1 \<Rightarrow>
          (case assertString (mapIndex r1 ''Id'') of
             (recordId, ok) \<Rightarrow>
               if \<not> ok \<or> recordId = '''' then Return (Inl idNotFound)
               else (case updateLoop sObjectName rs of
                       Panic p \<Rightarrow> Panic p
                     | Return (Inl err) \<Rightarrow> Return (Inl err)
                     | Return (Inr rs1) \<Rightarrow> Return (Inr (r1 # rs1)))))"

fun upsertLoop :: "string \<Rightarrow> string \<Rightarrow> recordMap list \<Rightarrow> (error + recordMap list) go" where
  "upsertLoop sObjectName fieldName [] = Return (Inr [])"
| "upsertLoop sObjectName fieldName (r # rs) =
     (case mapAssign r ''attributes'' (attributes sObjectName) of
        Panic p \<Rightarrow> Panic p
      | Return r1 \<Rightarrow>
          (case assertString (mapIndex r1 fieldName) of
             (externalIdValue, ok) \<Rightarrow>
               if \<not> ok \<or> externalIdValue = ''''
               then Return (Inl (externalIdNotFound fieldName sObjectName))
               else (case upsertLoop sObjectName fieldName rs of
                       Panic p \<Rightarrow> Panic p
                     | Return (Inl err) \<Rightarrow> Return (Inl err)
                     | Return (Inr rs1) \<Rightarrow> Return (Inr (r1 # rs1)))))"

text \<open>
  The loop of collection delete is \<^verbatim>\<open>for i := 0; i < len(recordMap); i++\<close> with the
  accumulator \<^verbatim>\<open>ids\<close>; the index \<^verbatim>\<open>len(recordMap)-1\<close> is computed on Go's \<^verbatim>\<open>int\<close>.
  It only reads the records.
\<close>

function deleteLoop :: "recordMap list \<Rightarrow> nat \<Rightarrow> string \<Rightarrow> error + string" where
  "deleteLoop recordMap i ids =
     (if i < length recordMap then
        (case assertString (mapIndex (recordMap ! i) ''Id'') of
           (recordId, ok) \<Rightarrow>
             if \<not> ok \<or> recordId = '''' then Inl idNotFound
             else if int i = int (length recordMap) - 1
               then deleteLoop recordMap (i + 1) (ids @ recordId)
               else deleteLoop recordMap (i + 1) (ids @ recordId @ '',''))
      else Inr ids)"
  by pat_completeness auto
termination
  by (relation "measure (\<lambda>(recordMap, i, ids). length recordMap - i)") auto

declare deleteLoop.simps [simp del]

definition doInsertCollection ::
  "'auth collaborators \<Rightarrow> 'auth \<Rightarrow> string \<Rightarrow> any \<Rightarrow> bool \<Rightarrow>
     error option go \<times> 'auth event list" where
  "doInsertCollection env auth sObjectName records allOrNone =
     (case convertToSliceOfMaps env records of
        Panic p \<Rightarrow> (Panic p, [])
      | Return (Inl err) \<Rightarrow> (Return (Some err), [])
      | Return (Inr recordMap0) \<Rightarrow>
          if length recordMap0 > 200 then (Return (Some tooManyRecords), [])
          else
            (case insertLoop sObjectName recordMap0 of
               Panic p \<Rightarrow> (Panic p, [])
             | Return recordMap \<Rightarrow>
                 (let payload = CollectionPayload
                        \<lparr>AllOrNone = FormatBool allOrNone, Records = recordMap\<rparr>;
                      m = JsonMarshal payload
                  in case json_Marshal env payload of
                       Inl err \<Rightarrow> (Return (Some err), [m])
                     | Inr body \<Rightarrow>
                         (let r = \<lparr>reqMethod = ''POST'', reqUri = ''/composite/sobjects/'',
                                   reqContent = jsonType, reqAuth = auth, reqBody = body\<rparr>
                          in case doRequest env r of
                               Inl err \<Rightarrow> (Return (Some err), [m, DoRequest r])
                             | Inr resp \<Rightarrow>
                                 if StatusCode resp \<noteq> StatusOK
                                 then (Return (processSalesforceError env resp),
                                       [m, DoRequest r])
                                 else (case processSalesforceResponse env resp of
                                         Some salesforceErrors \<Rightarrow>
                                           (Return (Some salesforceErrors), [m, DoRequest r])
                                       | None \<Rightarrow> (Return None, [m, DoRequest r]))))))"

definition doUpdateCollection ::
  "'auth collaborators \<Rightarrow> 'auth \<Rightarrow> string \<Rightarrow> any \<Rightarrow> bool \<Rightarrow>
     error option go \<times> 'auth event list" where
  "doUpdateCollection env auth sObjectName records allOrNone =
     (case convertToSliceOfMaps env records of
        Panic p \<Rightarrow> (Panic p, [])
      | Return (Inl err) \<Rightarrow> (Return (Some err), [])
      | Return (Inr recordMap0) \<Rightarrow>
          if length recordMap0 > 200 then (Return (Some tooManyRecords), [])
          else
            (case updateLoop sObjectName recordMap0 of
               Panic p \<Rightarrow> (Panic p, [])
             | Return (Inl err) \<Rightarrow> (Return (Some err), [])
             | Return (Inr recordMap) \<Rightarrow>
                 (let payload = CollectionPayload
                        \<lparr>AllOrNone = FormatBool allOrNone, Records = recordMap\<rparr>;
                      m = JsonMarshal payload
                  in case json_Marshal env payload of
                       Inl err \<Rightarrow> (Return (Some err), [m])
                     | Inr body \<Rightarrow>
                         (let r = \<lparr>reqMethod = ''PATCH'', reqUri = ''/composite/sobjects/'',
                                   reqContent = jsonType, reqAuth = auth, reqBody = body\<rparr>
                          in case doRequest env r of
                               Inl err \<Rightarrow> (Return (Some err), [m, DoRequest r])
                             | Inr resp \<Rightarrow>
                                 if StatusCode resp \<noteq> StatusOK
                                 then (Return (processSalesforceError env resp),
                                       [m, DoRequest r])
                                 else (case processSalesforceResponse env resp of
                                         Some salesforceErrors \<Rightarrow>
                                           (Return (Some salesforceErrors), [m, DoRequest r])
                                       | None \<Rightarrow> (Return None, [m, DoRequest r]))))))"

definition doUpsertCollection ::
  "'auth collaborators \<Rightarrow> 'auth \<Rightarrow> string \<Rightarrow> string \<Rightarrow> any \<Rightarrow> bool \<Rightarrow>
     error option go \<times> 'auth event list" where
  "doUpsertCollection env auth sObjectName fieldName records allOrNone =
     (case convertToSliceOfMaps env records of
        Panic p \<Rightarrow> (Panic p, [])
      | Return (Inl err) \<Rightarrow> (Return (Some err), [])
      | Return (Inr recordMap0) \<Rightarrow>
          if length recordMap0 > 200 then (Return (Some tooManyRecords), [])
          else
            (case upsertLoop sObjectName fieldName recordMap0 of
               Panic p \<Rightarrow> (Panic p, [])
             | Return (Inl err) \<Rightarrow> (Return (Some err), [])
             | Return (Inr recordMap) \<Rightarrow>
                 (let payload = CollectionPayload
                        \<lparr>AllOrNone = FormatBool allOrNone, Records = recordMap\<rparr>;
                      m = JsonMarshal payload
                  in case json_Marshal env payload of
                       Inl err \<Rightarrow> (Return (Some err), [m])
                     | Inr body \<Rightarrow>
                         (let r = \<lparr>reqMethod = ''PATCH'',
                                   reqUri = ''/composite/sobjects/'' @ sObjectName @ ''/'' @
                                            fieldName,
                                   reqContent = jsonType, reqAuth = auth, reqBody = body\<rparr>
                          in case doRequest env r of
                               Inl err \<Rightarrow> (Return (Some err), [m, DoRequest r])
                             | Inr resp \<Rightarrow>
                                 if StatusCode resp \<noteq> StatusOK
                                 then (Return (processSalesforceError env resp),
                                       [m, DoRequest r])
                                 else (case processSalesforceResponse env resp of
                                         Some salesforceErrors \<Rightarrow>
                                           (Return (Some salesforceErrors), [m, DoRequest r])
                                       | None \<Rightarrow> (Return None, [m, DoRequest r]))))))"

definition doDeleteCollection ::
  "'auth collaborators \<Rightarrow> 'auth \<Rightarrow> string \<Rightarrow> any \<Rightarrow> bool \<Rightarrow>
     error option go \<times> 'auth event list" where
  "doDeleteCollection env auth sObjectName records allOrNone =
     (case convertToSliceOfMaps env records of
        Panic p \<Rightarrow> (Panic p, [])
      | Return (Inl err) \<Rightarrow> (Return (Some err), [])
      | Return (Inr recordMap) \<Rightarrow>
          if length recordMap > 200 then (Return (Some tooManyRecords), [])
          else
            (case deleteLoop recordMap 0 '''' of
               Inl err \<Rightarrow> (Return (Some err), [])
             | Inr ids \<Rightarrow>
                 (let r = \<lparr>reqMethod = ''DELETE'',
                           reqUri = ''/composite/sobjects/?ids='' @ ids @ ''&allOrNone='' @
                                    FormatBool allOrNone,
                           reqContent = jsonType, reqAuth = auth, reqBody = ''''\<rparr>
                  in case doRequest env r of
                       Inl err \<Rightarrow> (Return (Some err), [DoRequest r])
                     | Inr resp \<Rightarrow>
                         if StatusCode resp \<noteq> StatusOK
                         then (Return (processSalesforceError env resp), [DoRequest r])
                         else (case processSalesforceResponse env resp of
                                 Some salesforceErrors \<Rightarrow>
                                   (Return (Some salesforceErrors), [DoRequest r])
                               | None \<Rightarrow> (Return None, [DoRequest r])))))"

section \<open>Authentication and session refresh\<close>

record Creds =
  Domain' :: string
  Username :: string
  Password :: string
  SecurityToken :: string
  ConsumerKey :: string
  ConsumerSecret :: string
  AccessToken :: string

record authentication =
  AccessToken :: string
  InstanceUrl :: string
  Id' :: string
  TokenType :: string
  Scope :: string
  IssuedAt :: string
  Signature :: string
  grantType :: string
  creds :: Creds

definition grantTypeUsernamePassword :: string where
  "grantTypeUsernamePassword = ''password''"

definition grantTypeClientCredentials :: string where
  "grantTypeClientCredentials = ''client_credentials''"

definition grantTypeAccessToken :: string where
  "grantTypeAccessToken = ''access_token''"

text \<open>
  The library functions of the authenticator: \<^verbatim>\<open>http.Post\<close> (url, content type, body),
  \<^verbatim>\<open>io.ReadAll\<close> on the response body, \<^verbatim>\<open>json.Unmarshal\<close> into an
  \<^verbatim>\<open>authentication\<close> and \<^verbatim>\<open>url.Values.Encode\<close>. The trace of an authenticator
  function lists the posts it made.
\<close>

record authCollaborators =
  http_Post :: "string \<Rightarrow> string \<Rightarrow> string \<Rightarrow> error + Response"
  io_ReadAll :: "Response \<Rightarrow> error + string"
  json_Unmarshal :: "string \<Rightarrow> error + authentication"
  url_Values_Encode :: "(string \<Rightarrow> string list option) \<Rightarrow> string"

record post =
  postUrl :: string
  postContentType :: string
  postBody :: string

text \<open>
  \<^verbatim>\<open>json.Unmarshal\<close> is taken to fill the \<^verbatim>\<open>authentication\<close> it is given or to
  return an error. \<^verbatim>\<open>doAuth\<close> and the flows then return \<^verbatim>\<open>(nil, err)\<close> or
  \<^verbatim>\<open>(auth, nil)\<close>: \<open>Inl err\<close> and \<open>Inr auth\<close>.
\<close>

definition doAuth ::
  "authCollaborators \<Rightarrow> string \<Rightarrow> string \<Rightarrow> (error + authentication) \<times> post list" where
  "doAuth env url body =
     (let p = \<lparr>postUrl = url, postContentType = ''application/x-www-form-urlencoded'',
                postBody = body\<rparr>
      in case http_Post env url ''application/x-www-form-urlencoded'' body of
           Inl err \<Rightarrow> (Inl err, [p])
         | Inr resp \<Rightarrow>
             if StatusCode resp \<noteq> StatusOK
             then (Inl (ErrorsNew (Status resp @ '':'' @ '' failed authentication'')), [p])
             else (case io_ReadAll env resp of
                     Inl err \<Rightarrow> (Inl err, [p])
                   | Inr respBody \<Rightarrow>
                       (case json_Unmarshal env respBody of
                          Inl jsonError \<Rightarrow> (Inl jsonError, [p])
                        | Inr auth \<Rightarrow> (Inr auth, [p]))))"

definition usernamePasswordFlow ::
  "authCollaborators \<Rightarrow> string \<Rightarrow> string \<Rightarrow> string \<Rightarrow> string \<Rightarrow> string \<Rightarrow> string \<Rightarrow>
     (error + authentication) \<times> post list" where
  "usernamePasswordFlow env domain username password securityToken consumerKey consumerSecret =
     (let payload = [''grant_type'' \<mapsto> [grantTypeUsernamePassword],
                     ''client_id'' \<mapsto> [consumerKey],
                     ''client_secret'' \<mapsto> [consumerSecret],
                     ''username'' \<mapsto> [username],
                     ''password'' \<mapsto> [password @ securityToken]];
          endpoint = ''/services/oauth2/token'';
          body = url_Values_Encode env payload
      in case doAuth env (domain @ endpoint) body of
           (Inl err, posts) \<Rightarrow> (Inl err, posts)
         | (Inr auth, posts) \<Rightarrow> (Inr (auth\<lparr>grantType := grantTypeUsernamePassword\<rparr>), posts))"

definition clientCredentialsFlow ::
  "authCollaborators \<Rightarrow> string \<Rightarrow> string \<Rightarrow> string \<Rightarrow> (error + authentication) \<times> post list" where
  "clientCredentialsFlow env domain consumerKey consumerSecret =
     (let payload = [''grant_type'' \<mapsto> [grantTypeClientCredentials],
                     ''client_id'' \<mapsto> [consumerKey],
                     ''client_secret'' \<mapsto> [consumerSecret]];
          endpoint = ''/services/oauth2/token'';
          body = url_Values_Encode env payload
      in case doAuth env (domain @ endpoint) body of
           (Inl err, posts) \<Rightarrow> (Inl err, posts)
         | (Inr auth, posts) \<Rightarrow> (Inr (auth\<lparr>grantType := grantTypeClientCredentials\<rparr>), posts))"

text \<open>
  \<^verbatim>\<open>refreshSession\<close> mutates the session behind its pointer and returns an error or
  \<^verbatim>\<open>nil\<close>: the model returns the session after the call, the error and the posts made.
  The \<^verbatim>\<open>switch\<close> selects the flow to run again, and its default case returns at once.
\<close>

definition refreshSession ::
  "authCollaborators \<Rightarrow> authentication \<Rightarrow> authentication \<times> error option \<times> post list" where
  "refreshSession env auth =
     (case (if grantType auth = grantTypeClientCredentials then
              Some (clientCredentialsFlow env
                      (Domain' (creds auth))
                      (ConsumerKey (creds auth))
                      (ConsumerSecret (creds auth)))
            else if grantType auth = grantTypeUsernamePassword then
              Some (usernamePasswordFlow env
                      (Domain' (creds auth))
                      (Username (creds auth))
                      (Password (creds auth))
                      (SecurityToken (creds auth))
                      (ConsumerKey (creds auth))
                      (ConsumerSecret (creds auth)))
            else None) of
        None \<Rightarrow> (auth, Some (ErrorsNew ''invalid session, unable to refresh session''), [])
      | Some (Inl err, posts) \<Rightarrow> (auth, Some err, posts)
      | Some (Inr refreshedAuth, posts) \<Rightarrow>
          (auth\<lparr>AccessToken := AccessToken refreshedAuth,
                IssuedAt := IssuedAt refreshedAuth,
                Signature := Signature refreshedAuth,
                Id' := Id' refreshedAuth\<rparr>,
           None, posts))"

section \<open>Vocabulary of the properties\<close>

text \<open>The records handed to the serializer and the requests handed to the transport.\<close>

fun payloadRecords :: "payload \<Rightarrow> recordMap list" where
  "payloadRecords (RecordPayload r) = [r]"
| "payloadRecords (CollectionPayload c) = Records c"

fun marshalledRecords :: "'auth event list \<Rightarrow> recordMap list" where
  "marshalledRecords [] = []"
| "marshalledRecords (JsonMarshal p # es) = payloadRecords p @ marshalledRecords es"
| "marshalledRecords (DoRequest r # es) = marshalledRecords es"

fun requests :: "'auth event list \<Rightarrow> 'auth request list" where
  "requests [] = []"
| "requests (JsonMarshal p # es) = requests es"
| "requests (DoRequest r # es) = r # requests es"

text \<open>A field that holds a non-empty string, and the string it holds.\<close>

definition nonEmptyString :: "any option \<Rightarrow> bool" where
  "nonEmptyString x = (case x of Some (AString s) \<Rightarrow> s \<noteq> [] | _ \<Rightarrow> False)"

definition stringOf :: "any option \<Rightarrow> string" where
  "stringOf x = (case x of Some (AString s) \<Rightarrow> s | _ \<Rightarrow> [])"

text \<open>Strings joined by commas, none after the last.\<close>

fun joinComma :: "string list \<Rightarrow> string" where
  "joinComma [] = []"
| "joinComma [s] = s"
| "joinComma (s # t # ss) = s @ '','' @ joinComma (t # ss)"

definition isFailure :: "recordOutcome \<Rightarrow> bool" where
  "isFailure outcome = (case outcome of RecordFailure errs \<Rightarrow> True | RecordSuccess ident \<Rightarrow> False)"

text \<open>
  The encodings of one allocated record: with \<^verbatim>\<open>Id\<close> removed and the attributes block
  injected (insert and single-record update), and with only the attributes block injected
  (collection update and collection upsert).
\<close>

definition withoutId :: "string \<Rightarrow> recordMap \<Rightarrow> recordMap" where
  "withoutId sObjectName =
     map_option (\<lambda>f. (f(''Id'' := None))(''attributes'' \<mapsto> attributes sObjectName))"

definition withAttributes :: "string \<Rightarrow> recordMap \<Rightarrow> recordMap" where
  "withAttributes sObjectName =
     map_option (\<lambda>f. f(''attributes'' \<mapsto> attributes sObjectName))"

section \<open>Example inputs\<close>

definition exampleRecord :: recordMap where
  "exampleRecord = Some [''Id'' \<mapsto> AString ''001'', ''Ext__c'' \<mapsto> AString ''E1'']"

definition exampleRecord2 :: recordMap where
  "exampleRecord2 = Some [''Id'' \<mapsto> AString ''002'', ''Ext__c'' \<mapsto> AString ''E2'']"

definition anonymousRecord :: recordMap where
  "anonymousRecord = Some [''Name'' \<mapsto> AString ''Acme'']"

text \<open>A record whose only field is named \<^verbatim>\<open>attributes\<close> and holds a string.\<close>

definition attributesRecord :: recordMap where
  "attributesRecord = Some [''attributes'' \<mapsto> AString ''A1'']"

definition exampleResponse :: Response where
  "exampleResponse = \<lparr>Status = ''200 OK'', StatusCode = 200, Body = ''[]''\<rparr>"

definition exampleResults :: "recordOutcome list" where
  "exampleResults =
     [RecordSuccess (Some ''001''),
      RecordFailure [\<lparr>errorCode = ''REQUIRED_FIELD_MISSING'', message = ''Name''\<rparr>],
      RecordSuccess None]"

text \<open>
  A decoder that accepts a slice of generic maps and nothing else and hands each element
  over as it is, a \<^verbatim>\<open>nil\<close> map as a \<^verbatim>\<open>nil\<close> map; a serializer that always succeeds;
  and a transport that answers OK with the example results.
\<close>

fun exampleDecodeMaps :: "any list \<Rightarrow> error + recordMap list" where
  "exampleDecodeMaps [] = Inr []"
| "exampleDecodeMaps (MapStringAny m # xs) =
     (case exampleDecodeMaps xs of Inl err \<Rightarrow> Inl err | Inr ms \<Rightarrow> Inr (m # ms))"
| "exampleDecodeMaps (x # xs) = Inl (Foreign ''expected a map'')"

definition exampleDecodeSlice :: "any \<Rightarrow> error + recordMap list" where
  "exampleDecodeSlice obj =
     (case obj of SliceOfAny xs \<Rightarrow> exampleDecodeMaps xs | _ \<Rightarrow> Inl (Foreign ''expected a slice''))"

definition exampleEnv :: "unit collaborators" where
  "exampleEnv =
     \<lparr>mapstructure_Decode_map = (\<lambda>obj. Inl (Foreign ''expected a struct'')),
      mapstructure_Decode_slice = exampleDecodeSlice,
      json_Marshal = (\<lambda>p. Inr ''{}''),
      doRequest = (\<lambda>r. Inr exampleResponse),
      processSalesforceError = (\<lambda>resp. Some (Foreign (Status resp))),
      decodeResults = (\<lambda>resp. exampleResults)\<rparr>"

text \<open>The Go value \<^verbatim>\<open>[]map[string]any{r, ..., r}\<close> with \<open>n\<close> entries.\<close>

definition sliceOf :: "nat \<Rightarrow> recordMap \<Rightarrow> any" where
  "sliceOf n r = SliceOfAny (replicate n (MapStringAny r))"

definition exampleCreds :: Creds where
  "exampleCreds =
     \<lparr>Domain' = ''https://example.my.salesforce.com'', Username = ''user'', Password = ''pw'',
      SecurityToken = ''tok'', ConsumerKey = ''key'', ConsumerSecret = ''secret'',
      AccessToken = ''''\<rparr>"

definition exampleSession :: "string \<Rightarrow> authentication" where
  "exampleSession flow =
     \<lparr>AccessToken = ''old'', InstanceUrl = ''https://instance'', Id' = ''id0'',
      TokenType = ''Bearer'', Scope = ''api'', IssuedAt = ''1'', Signature = ''sig0'',
      grantType = flow, creds = exampleCreds\<rparr>"

definition exampleToken :: authentication where
  "exampleToken =
     \<lparr>AccessToken = ''new'', InstanceUrl = ''https://other'', Id' = ''id1'',
      TokenType = ''Bearer'', Scope = ''api'', IssuedAt = ''2'', Signature = ''sig1'',
      grantType = '''', creds = \<lparr>Domain' = '''', Username = '''', Password = '''',
      SecurityToken = '''', ConsumerKey = '''', ConsumerSecret = '''', AccessToken = ''''\<rparr>\<rparr>"

text \<open>An identity endpoint that answers OK with the example token, and one that is down.\<close>

definition exampleAuthEnv :: authCollaborators where
  "exampleAuthEnv =
     \<lparr>http_Post = (\<lambda>url contentType body. Inr exampleResponse),
      io_ReadAll = (\<lambda>resp. Inr (Body resp)),
      json_Unmarshal = (\<lambda>respBody. Inr exampleToken),
      url_Values_Encode = (\<lambda>values. ''form'')\<rparr>"

definition downAuthEnv :: authCollaborators where
  "downAuthEnv =
     \<lparr>http_Post = (\<lambda>url contentType body. Inl (Foreign ''connection refused'')),
      io_ReadAll = (\<lambda>resp. Inr (Body resp)),
      json_Unmarshal = (\<lambda>respBody. Inr exampleToken),
      url_Values_Encode = (\<lambda>values. ''form'')\<rparr>"

section \<open>The list normalizer\<close>

text \<open>
  C3. The claim: \<^verbatim>\<open>convertToSliceOfMaps\<close> returns a sequence of mappings or a codec error
  for every input and never panics, in particular on a single \<^verbatim>\<open>map[string]any\<close>.
  The code evaluated on any single \<^verbatim>\<open>map[string]any\<close>: the guard
  \<^verbatim>\<open>obj.(map[string]any)\<close> holds, and the unchecked assertion
  \<^verbatim>\<open>obj.([]map[string]any)\<close> in its branch panics; neither a list nor an error is
  returned.
\<close>

theorem convertToSliceOfMaps_map_input_panics:
  "convertToSliceOfMaps env (MapStringAny m) =
     Panic ''interface conversion: interface {} is map[string]interface {}, not []map[string]interface {}''"
  by (simp add: convertToSliceOfMaps_def)

section \<open>Session refresh\<close>

text \<open>
  C5. A session whose flow tag is the pre-issued-token tag, or any tag other than the
  username-password and client-credentials tags, cannot be refreshed: \<^verbatim>\<open>refreshSession\<close>
  returns the error at once, the session is as it was, and no post is made, whatever the
  transport would answer.
\<close>

theorem refreshSession_unrefreshable_flow:
  assumes "grantType auth = grantTypeAccessToken \<or>
           (grantType auth \<noteq> grantTypeUsernamePassword \<and>
            grantType auth \<noteq> grantTypeClientCredentials)"
  shows "refreshSession env auth =
           (auth, Some (ErrorsNew ''invalid session, unable to refresh session''), [])"
  using assms
  by (auto simp: refreshSession_def grantTypeAccessToken_def grantTypeUsernamePassword_def
        grantTypeClientCredentials_def)

text \<open>
  The theorem at a pre-issued-token session with the identity endpoint down, and at a
  session with an unknown tag with the identity endpoint up.
\<close>

theorem refreshSession_unrefreshable_flow_witness:
  "refreshSession downAuthEnv (exampleSession grantTypeAccessToken) =
     (exampleSession grantTypeAccessToken,
      Some (ErrorsNew ''invalid session, unable to refresh session''), []) \<and>
   refreshSession exampleAuthEnv (exampleSession ''jwt'') =
     (exampleSession ''jwt'',
      Some (ErrorsNew ''invalid session, unable to refresh session''), [])"
proof -
  have a: "grantType (exampleSession grantTypeAccessToken) = grantTypeAccessToken"
    by (simp add: exampleSession_def)
  have b: "grantType (exampleSession ''jwt'') \<noteq> grantTypeUsernamePassword \<and>
           grantType (exampleSession ''jwt'') \<noteq> grantTypeClientCredentials"
    by (simp add: exampleSession_def grantTypeUsernamePassword_def
          grantTypeClientCredentials_def)
  show ?thesis
    using refreshSession_unrefreshable_flow [of "exampleSession grantTypeAccessToken" downAuthEnv]
      refreshSession_unrefreshable_flow [of "exampleSession ''jwt''" exampleAuthEnv] a b
    by simp
qed

text \<open>
  C4. Whatever the outcome of a refresh, the session after it differs from the session
  before it in at most the access token, the issued-at stamp, the signature and the
  identity; the instance URL and the flow tag are unchanged. After a successful refresh
  these four fields hold the values of a decoded token response.
\<close>

theorem refreshSession_frame:
  assumes "refreshSession env auth = (auth', err, posts)"
  shows "auth' = auth\<lparr>AccessToken := AccessToken auth', IssuedAt := IssuedAt auth',
                        Signature := Signature auth', Id' := Id' auth'\<rparr> \<and>
         InstanceUrl auth' = InstanceUrl auth \<and> grantType auth' = grantType auth \<and>
         (err = None \<longrightarrow>
            (\<exists>respBody refreshed. json_Unmarshal env respBody = Inr refreshed \<and>
               AccessToken auth' = AccessToken refreshed \<and>
               IssuedAt auth' = IssuedAt refreshed \<and>
               Signature auth' = Signature refreshed \<and> Id' auth' = Id' refreshed))"
proof -
  have frame: "auth' = auth\<lparr>AccessToken := AccessToken auth', IssuedAt := IssuedAt auth',
                        Signature := Signature auth', Id' := Id' auth'\<rparr> \<and>
         InstanceUrl auth' = InstanceUrl auth \<and> grantType auth' = grantType auth"
    using assms
    by (auto simp: refreshSession_def split: if_splits prod.splits sum.splits)
  have src: "\<exists>respBody refreshed. json_Unmarshal env respBody = Inr refreshed \<and>
               AccessToken auth' = AccessToken refreshed \<and>
               IssuedAt auth' = IssuedAt refreshed \<and>
               Signature auth' = Signature refreshed \<and> Id' auth' = Id' refreshed"
    if "err = None"
    using assms that
    by (auto simp: refreshSession_def usernamePasswordFlow_def clientCredentialsFlow_def
        doAuth_def Let_def split: if_splits prod.splits sum.splits) blast+
  from frame src show ?thesis by blast
qed

text \<open>
  The theorem at a username-password session refreshed against an identity endpoint that
  answers with the example token, whose instance URL differs from the session's.
\<close>

theorem refreshSession_frame_witness:
  "refreshSession exampleAuthEnv (exampleSession grantTypeUsernamePassword) =
     ((exampleSession grantTypeUsernamePassword)
        \<lparr>AccessToken := ''new'', IssuedAt := ''2'', Signature := ''sig1'', Id' := ''id1''\<rparr>,
      None,
      [\<lparr>postUrl = ''https://example.my.salesforce.com/services/oauth2/token'',
        postContentType = ''application/x-www-form-urlencoded'', postBody = ''form''\<rparr>]) \<and>
   InstanceUrl ((exampleSession grantTypeUsernamePassword)
        \<lparr>AccessToken := ''new'', IssuedAt := ''2'', Signature := ''sig1'', Id' := ''id1''\<rparr>)
     = ''https://instance'' \<and>
   grantType ((exampleSession grantTypeUsernamePassword)
        \<lparr>AccessToken := ''new'', IssuedAt := ''2'', Signature := ''sig1'', Id' := ''id1''\<rparr>)
     = grantTypeUsernamePassword"
proof -
  have run: "refreshSession exampleAuthEnv (exampleSession grantTypeUsernamePassword) =
     ((exampleSession grantTypeUsernamePassword)
        \<lparr>AccessToken := ''new'', IssuedAt := ''2'', Signature := ''sig1'', Id' := ''id1''\<rparr>,
      None,
      [\<lparr>postUrl = ''https://example.my.salesforce.com/services/oauth2/token'',
        postContentType = ''application/x-www-form-urlencoded'', postBody = ''form''\<rparr>])"
    by (simp add: refreshSession_def usernamePasswordFlow_def doAuth_def exampleAuthEnv_def
        exampleSession_def exampleCreds_def exampleToken_def exampleResponse_def StatusOK_def
        grantTypeUsernamePassword_def grantTypeClientCredentials_def)
  show ?thesis
    using refreshSession_frame [OF run] run by (simp add: exampleSession_def)
qed

text \<open>
  C10. Refresh is atomic on failure: when the flow that is run again returns an error
  (and so no authentication), \<^verbatim>\<open>refreshSession\<close> leaves the whole session as it was
  and returns that error.
\<close>

theorem refreshSession_atomic_on_failure:
  assumes "(grantType auth = grantTypeClientCredentials \<and>
            clientCredentialsFlow env (Domain' (creds auth)) (ConsumerKey (creds auth))
              (ConsumerSecret (creds auth)) = (Inl e, posts)) \<or>
           (grantType auth = grantTypeUsernamePassword \<and>
            usernamePasswordFlow env (Domain' (creds auth)) (Username (creds auth))
              (Password (creds auth)) (SecurityToken (creds auth)) (ConsumerKey (creds auth))
              (ConsumerSecret (creds auth)) = (Inl e, posts))"
  shows "refreshSession env auth = (auth, Some e, posts)"
  using assms
  by (auto simp: refreshSession_def grantTypeUsernamePassword_def grantTypeClientCredentials_def)

text \<open>
  The theorem at a client-credentials session whose identity endpoint is down: the flow
  posts once, fails, and the session is untouched.
\<close>

theorem refreshSession_atomic_on_failure_witness:
  "clientCredentialsFlow downAuthEnv ''https://example.my.salesforce.com'' ''key'' ''secret'' =
     (Inl (Foreign ''connection refused''),
      [\<lparr>postUrl = ''https://example.my.salesforce.com/services/oauth2/token'',
        postContentType = ''application/x-www-form-urlencoded'', postBody = ''form''\<rparr>]) \<and>
   refreshSession downAuthEnv (exampleSession grantTypeClientCredentials) =
     (exampleSession grantTypeClientCredentials, Some (Foreign ''connection refused''),
      [\<lparr>postUrl = ''https://example.my.salesforce.com/services/oauth2/token'',
        postContentType = ''application/x-www-form-urlencoded'', postBody = ''form''\<rparr>])"
proof -
  have tag: "grantType (exampleSession grantTypeClientCredentials) = grantTypeClientCredentials"
    by (simp add: exampleSession_def)
  have flow: "clientCredentialsFlow downAuthEnv
      (Domain' (creds (exampleSession grantTypeClientCredentials)))
      (ConsumerKey (creds (exampleSession grantTypeClientCredentials)))
      (ConsumerSecret (creds (exampleSession grantTypeClientCredentials))) =
     (Inl (Foreign ''connection refused''),
      [\<lparr>postUrl = ''https://example.my.salesforce.com/services/oauth2/token'',
        postContentType = ''application/x-www-form-urlencoded'', postBody = ''form''\<rparr>])"
    by (simp add: clientCredentialsFlow_def doAuth_def downAuthEnv_def exampleSession_def
          exampleCreds_def)
  from tag flow have "(grantType (exampleSession grantTypeClientCredentials) =
        grantTypeClientCredentials \<and>
      clientCredentialsFlow downAuthEnv
        (Domain' (creds (exampleSession grantTypeClientCredentials)))
        (ConsumerKey (creds (exampleSession grantTypeClientCredentials)))
        (ConsumerSecret (creds (exampleSession grantTypeClientCredentials))) =
      (Inl (Foreign ''connection refused''),
       [\<lparr>postUrl = ''https://example.my.salesforce.com/services/oauth2/token'',
         postContentType = ''application/x-www-form-urlencoded'', postBody = ''form''\<rparr>])) \<or>
     (grantType (exampleSession grantTypeClientCredentials) = grantTypeUsernamePassword \<and>
      usernamePasswordFlow downAuthEnv
        (Domain' (creds (exampleSession grantTypeClientCredentials)))
        (Username (creds (exampleSession grantTypeClientCredentials)))
        (Password (creds (exampleSession grantTypeClientCredentials)))
        (SecurityToken (creds (exampleSession grantTypeClientCredentials)))
        (ConsumerKey (creds (exampleSession grantTypeClientCredentials)))
        (ConsumerSecret (creds (exampleSession grantTypeClientCredentials))) =
      (Inl (Foreign ''connection refused''),
       [\<lparr>postUrl = ''https://example.my.salesforce.com/services/oauth2/token'',
         postContentType = ''application/x-www-form-urlencoded'', postBody = ''form''\<rparr>]))"
    by blast
  from refreshSession_atomic_on_failure [OF this] flow show ?thesis
    by (simp add: exampleSession_def exampleCreds_def)
qed

section \<open>The username-password flow\<close>

text \<open>
  C9. For every domain, username, password, security token, consumer key and consumer
  secret, the username-password flow makes exactly one post, to
  \<open>domain @ ''/services/oauth2/token''\<close>, of form content type, whose body is the form
  encoding of \<^verbatim>\<open>grant_type=password\<close>, \<^verbatim>\<open>client_id\<close>, \<^verbatim>\<open>client_secret\<close>,
  \<^verbatim>\<open>username\<close> and, as \<^verbatim>\<open>password\<close>, the password followed by the security token;
  the session it returns on success carries the username-password flow tag.
\<close>

theorem usernamePasswordFlow_request:
  "snd (usernamePasswordFlow env domain username password securityToken consumerKey
          consumerSecret) =
     [\<lparr>postUrl = domain @ ''/services/oauth2/token'',
       postContentType = ''application/x-www-form-urlencoded'',
       postBody = url_Values_Encode env
         [''grant_type'' \<mapsto> [''password''], ''client_id'' \<mapsto> [consumerKey],
          ''client_secret'' \<mapsto> [consumerSecret], ''username'' \<mapsto> [username],
          ''password'' \<mapsto> [password @ securityToken]]\<rparr>] \<and>
   (\<forall>auth. fst (usernamePasswordFlow env domain username password securityToken consumerKey
                  consumerSecret) = Inr auth \<longrightarrow> grantType auth = grantTypeUsernamePassword)"
  by (auto simp: usernamePasswordFlow_def doAuth_def Let_def grantTypeUsernamePassword_def
        split: sum.splits prod.splits if_splits)

text \<open>The theorem at the example credentials, against an endpoint that answers OK.\<close>

theorem usernamePasswordFlow_request_witness:
  "fst (usernamePasswordFlow exampleAuthEnv ''https://d'' ''user'' ''pw'' ''tok'' ''key''
          ''secret'') = Inr (exampleToken\<lparr>grantType := ''password''\<rparr>) \<and>
   grantType (exampleToken\<lparr>grantType := ''password''\<rparr>) = grantTypeUsernamePassword \<and>
   snd (usernamePasswordFlow exampleAuthEnv ''https://d'' ''user'' ''pw'' ''tok'' ''key''
          ''secret'') =
     [\<lparr>postUrl = ''https://d/services/oauth2/token'',
       postContentType = ''application/x-www-form-urlencoded'', postBody = ''form''\<rparr>]"
proof -
  have run: "fst (usernamePasswordFlow exampleAuthEnv ''https://d'' ''user'' ''pw'' ''tok''
      ''key'' ''secret'') = Inr (exampleToken\<lparr>grantType := ''password''\<rparr>)"
    by (simp add: usernamePasswordFlow_def doAuth_def exampleAuthEnv_def exampleResponse_def
          StatusOK_def grantTypeUsernamePassword_def)
  have enc: "url_Values_Encode exampleAuthEnv form = ''form''" for form
    by (simp add: exampleAuthEnv_def)
  from usernamePasswordFlow_request [of exampleAuthEnv "''https://d''" "''user''" "''pw''"
      "''tok''" "''key''" "''secret''"] run enc
  show ?thesis by simp
qed

section \<open>Facts about the loops and the example environment\<close>

lemma assertString_valid:
  "nonEmptyString x \<Longrightarrow> assertString x = (stringOf x, True) \<and> stringOf x \<noteq> []"
  by (auto simp: nonEmptyString_def assertString_def stringOf_def split: option.splits any.splits)

lemma assertString_invalid:
  "\<not> nonEmptyString x \<Longrightarrow> assertString x = (s, ok) \<Longrightarrow> \<not> ok \<or> s = []"
  by (auto simp: nonEmptyString_def assertString_def split: option.splits any.splits)

text \<open>A field fails to hold a non-empty string when it is absent, empty, or not a string.\<close>

lemma nonEmptyString_cases:
  "(\<not> nonEmptyString x) =
     (x = None \<or> x = Some (AString []) \<or> (\<forall>s. x \<noteq> Some (AString s)))"
  by (auto simp: nonEmptyString_def split: option.splits any.splits)

lemma mapIndex_simps [simp]:
  "mapIndex None k = None"
  "mapIndex (Some f) k = f k"
  by (simp_all add: mapIndex_def)

lemma nonEmptyString_None [simp]: "\<not> nonEmptyString None"
  by (simp add: nonEmptyString_def)

lemma nonEmptyString_allocated: "nonEmptyString (mapIndex r k) \<Longrightarrow> \<exists>f. r = Some f"
  by (cases r) simp_all

lemma mapIndex_withAttributes:
  "k \<noteq> ''attributes'' \<Longrightarrow> mapIndex (withAttributes n r) k = mapIndex r k"
  by (cases r) (simp_all add: withAttributes_def)

lemma mapIndex_withAttributes_attributes:
  "r \<noteq> None \<Longrightarrow> mapIndex (withAttributes n r) ''attributes'' = Some (attributes n)"
  by (cases r) (simp_all add: withAttributes_def)

lemma mapIndex_withoutId:
  "r \<noteq> None \<Longrightarrow>
   mapIndex (withoutId n r) ''Id'' = None \<and>
   mapIndex (withoutId n r) ''attributes'' = Some (attributes n)"
  by (cases r) (simp_all add: withoutId_def)

lemma insertLoop_allocated:
  "None \<notin> set rs \<Longrightarrow> insertLoop n rs = Return (map (withoutId n) rs)"
proof (induction rs)
  case Nil
  then show ?case by simp
next
  case (Cons r rs)
  then obtain f where "r = Some f" by (cases r) auto
  with Cons show ?case
    by (simp add: mapDelete_def mapAssign_def withoutId_def)
qed

lemma insertLoop_nil:
  "None \<in> set rs \<Longrightarrow> insertLoop n rs = Panic ''assignment to entry in nil map''"
proof (induction rs)
  case Nil
  then show ?case by simp
next
  case (Cons r rs)
  show ?case
  proof (cases r)
    case None
    then show ?thesis by (simp add: mapDelete_def mapAssign_def)
  next
    case (Some f)
    with Cons show ?thesis by (simp add: mapDelete_def mapAssign_def)
  qed
qed

lemma updateLoop_ok:
  "list_all (\<lambda>r. nonEmptyString (mapIndex r ''Id'')) rs \<Longrightarrow>
   updateLoop n rs = Return (Inr (map (withAttributes n) rs))"
proof (induction rs)
  case Nil
  then show ?case by simp
next
  case (Cons r rs)
  then have v: "nonEmptyString (mapIndex r ''Id'')" by simp
  then obtain f where f: "r = Some f" by (auto dest: nonEmptyString_allocated)
  from v f have "nonEmptyString (f ''Id'')" by simp
  from assertString_valid [OF this] Cons f show ?case
    by (simp add: mapAssign_def withAttributes_def)
qed

text \<open>
  When some record lacks the identifier, the update loop stops at the first such record:
  with the error if that record is allocated, with a panic if it is \<^verbatim>\<open>nil\<close>.
\<close>

lemma updateLoop_stops:
  assumes "i < length rs"
    and "\<not> nonEmptyString (mapIndex (rs ! i) ''Id'')"
    and "\<forall>j<i. nonEmptyString (mapIndex (rs ! j) ''Id'')"
  shows "updateLoop n rs =
           (if rs ! i = None then Panic ''assignment to entry in nil map''
            else Return (Inl idNotFound))"
  using assms
proof (induction rs arbitrary: i)
  case Nil
  then show ?case by simp
next
  case (Cons r rs)
  show ?case
  proof (cases i)
    case 0
    show ?thesis
    proof (cases r)
      case None
      with 0 show ?thesis by (simp add: mapAssign_def)
    next
      case (Some f)
      with 0 Cons.prems(2) have "\<not> nonEmptyString (f ''Id'')" by simp
      with 0 Some show ?thesis
        by (auto simp: mapAssign_def split: prod.splits dest: assertString_invalid)
    qed
  next
    case (Suc k)
    with Cons.prems(3) have v: "nonEmptyString (mapIndex r ''Id'')" by auto
    then obtain f where f: "r = Some f" by (auto dest: nonEmptyString_allocated)
    from v f have "nonEmptyString (f ''Id'')" by simp
    note a = assertString_valid [OF this]
    from Suc Cons.prems have k: "k < length rs"
      "\<not> nonEmptyString (mapIndex (rs ! k) ''Id'')"
      "\<forall>j<k. nonEmptyString (mapIndex (rs ! j) ''Id'')"
      by auto
    from Cons.IH [OF k] a f Suc show ?thesis
      by (simp add: mapAssign_def)
  qed
qed

lemma first_failing:
  assumes "\<not> list_all P rs"
  shows "\<exists>i<length rs. \<not> P (rs ! i) \<and> (\<forall>j<i. P (rs ! j))"
proof -
  from assms have "\<exists>i. i < length rs \<and> \<not> P (rs ! i)"
    by (auto simp: list_all_iff in_set_conv_nth)
  then obtain i where i: "i < length rs \<and> \<not> P (rs ! i)"
    and least: "\<forall>j<i. \<not> (j < length rs \<and> \<not> P (rs ! j))"
    using exists_least_iff [of "\<lambda>i. i < length rs \<and> \<not> P (rs ! i)"] by blast
  then have "\<forall>j<i. P (rs ! j)" by auto
  with i show ?thesis by blast
qed

lemma updateLoop_not_Inr:
  assumes "\<not> list_all (\<lambda>r. nonEmptyString (mapIndex r ''Id'')) rs"
  shows "updateLoop n rs = Panic ''assignment to entry in nil map'' \<or>
         updateLoop n rs = Return (Inl idNotFound)"
proof -
  from first_failing [OF assms] obtain i where "i < length rs"
    "\<not> nonEmptyString (mapIndex (rs ! i) ''Id'')"
    "\<forall>j<i. nonEmptyString (mapIndex (rs ! j) ''Id'')" by blast
  from updateLoop_stops [OF this, of n] show ?thesis by (auto split: if_splits)
qed

lemma updateLoop_Inr:
  "updateLoop n rs = Return (Inr rs') \<Longrightarrow>
   rs' = map (withAttributes n) rs \<and> list_all (\<lambda>r. nonEmptyString (mapIndex r ''Id'')) rs"
  using updateLoop_ok [of rs n] updateLoop_not_Inr [of rs n]
  by (cases "list_all (\<lambda>r. nonEmptyString (mapIndex r ''Id'')) rs") auto

lemma upsertLoop_ok:
  "list_all (\<lambda>r. nonEmptyString (mapIndex (withAttributes n r) f)) rs \<Longrightarrow>
   upsertLoop n f rs = Return (Inr (map (withAttributes n) rs))"
proof (induction rs)
  case Nil
  then show ?case by simp
next
  case (Cons r rs)
  then have v: "nonEmptyString (mapIndex (withAttributes n r) f)" by simp
  then obtain g where g: "r = Some g"
    by (cases r) (simp_all add: withAttributes_def)
  from v g have "nonEmptyString ((g(''attributes'' \<mapsto> attributes n)) f)"
    by (simp add: withAttributes_def)
  from assertString_valid [OF this] Cons g show ?case
    by (simp add: mapAssign_def withAttributes_def)
qed

lemma upsertLoop_stops:
  assumes "i < length rs"
    and "\<not> nonEmptyString (mapIndex (withAttributes n (rs ! i)) f)"
    and "\<forall>j<i. nonEmptyString (mapIndex (withAttributes n (rs ! j)) f)"
  shows "upsertLoop n f rs =
           (if rs ! i = None then Panic ''assignment to entry in nil map''
            else Return (Inl (externalIdNotFound f n)))"
  using assms
proof (induction rs arbitrary: i)
  case Nil
  then show ?case by simp
next
  case (Cons r rs)
  show ?case
  proof (cases i)
    case 0
    show ?thesis
    proof (cases r)
      case None
      with 0 show ?thesis by (simp add: mapAssign_def)
    next
      case (Some g)
      with 0 Cons.prems(2) have "\<not> nonEmptyString ((g(''attributes'' \<mapsto> attributes n)) f)"
        by (simp add: withAttributes_def)
      with 0 Some show ?thesis
        by (auto simp: mapAssign_def split: prod.splits dest: assertString_invalid)
    qed
  next
    case (Suc k)
    with Cons.prems(3) have v: "nonEmptyString (mapIndex (withAttributes n r) f)" by auto
    then obtain g where g: "r = Some g"
      by (cases r) (simp_all add: withAttributes_def)
    from v g have "nonEmptyString ((g(''attributes'' \<mapsto> attributes n)) f)"
      by (simp add: withAttributes_def)
    note a = assertString_valid [OF this]
    from Suc Cons.prems have k: "k < length rs"
      "\<not> nonEmptyString (mapIndex (withAttributes n (rs ! k)) f)"
      "\<forall>j<k. nonEmptyString (mapIndex (withAttributes n (rs ! j)) f)"
      by auto
    from Cons.IH [OF k] a g Suc show ?thesis
      by (simp add: mapAssign_def)
  qed
qed

lemma upsertLoop_not_Inr:
  assumes "\<not> list_all (\<lambda>r. nonEmptyString (mapIndex (withAttributes n r) f)) rs"
  shows "upsertLoop n f rs = Panic ''assignment to entry in nil map'' \<or>
         upsertLoop n f rs = Return (Inl (externalIdNotFound f n))"
proof -
  from first_failing [OF assms] obtain i where "i < length rs"
    "\<not> nonEmptyString (mapIndex (withAttributes n (rs ! i)) f)"
    "\<forall>j<i. nonEmptyString (mapIndex (withAttributes n (rs ! j)) f)" by blast
  from upsertLoop_stops [OF this] show ?thesis by (auto split: if_splits)
qed

lemma upsertLoop_Inr:
  "upsertLoop n f rs = Return (Inr rs') \<Longrightarrow>
   rs' = map (withAttributes n) rs \<and>
   list_all (\<lambda>r. nonEmptyString (mapIndex (withAttributes n r) f)) rs"
  using upsertLoop_ok [of n f rs] upsertLoop_not_Inr [of n f rs]
  by (cases "list_all (\<lambda>r. nonEmptyString (mapIndex (withAttributes n r) f)) rs") auto

lemma joinComma_Cons:
  "joinComma (s # ss) = (if ss = [] then s else s @ '','' @ joinComma ss)"
  by (cases ss) simp_all

text \<open>
  The delete loop started at index \<open>i\<close> with accumulator \<open>ids\<close>: when every record from
  \<open>i\<close> on carries an identifier, it appends their comma-joined identifiers.
\<close>

lemma deleteLoop_ok:
  "\<forall>j. i \<le> j \<and> j < length rs \<longrightarrow> nonEmptyString (mapIndex (rs ! j) ''Id'') \<Longrightarrow>
   deleteLoop rs i ids =
     Inr (ids @ joinComma (map (\<lambda>r. stringOf (mapIndex r ''Id'')) (drop i rs)))"
proof (induction rs i ids rule: deleteLoop.induct)
  case (1 recordMap i ids)
  show ?case
  proof (cases "i < length recordMap")
    case False
    then show ?thesis by (subst deleteLoop.simps) simp
  next
    case True
    from "1.prems" True have v: "nonEmptyString (mapIndex (recordMap ! i) ''Id'')" by simp
    from assertString_valid [OF v]
    have a: "assertString (mapIndex (recordMap ! i) ''Id'') =
        (stringOf (mapIndex (recordMap ! i) ''Id''), True)"
      and ne: "stringOf (mapIndex (recordMap ! i) ''Id'') \<noteq> []" by simp_all
    from "1.prems" have later:
      "\<forall>j. i + 1 \<le> j \<and> j < length recordMap \<longrightarrow>
         nonEmptyString (mapIndex (recordMap ! j) ''Id'')"
      by simp
    have dr: "drop i recordMap = recordMap ! i # drop (Suc i) recordMap"
      using True by (simp add: Cons_nth_drop_Suc)
    show ?thesis
    proof (cases "int i = int (length recordMap) - 1")
      case last: True
      then have "drop (Suc i) recordMap = []" by simp
      moreover have
        "deleteLoop recordMap (i + 1) (ids @ stringOf (mapIndex (recordMap ! i) ''Id'')) =
          Inr ((ids @ stringOf (mapIndex (recordMap ! i) ''Id'')) @
            joinComma (map (\<lambda>r. stringOf (mapIndex r ''Id'')) (drop (i + 1) recordMap)))"
        using "1.IH"(1) [OF True a [symmetric] _ last later] ne by simp
      ultimately show ?thesis
        using True a ne last dr by (subst deleteLoop.simps) simp
    next
      case notlast: False
      then have rest: "drop (Suc i) recordMap \<noteq> []" using True by simp
      have "deleteLoop recordMap (i + 1)
          (ids @ stringOf (mapIndex (recordMap ! i) ''Id'') @ '','') =
          Inr ((ids @ stringOf (mapIndex (recordMap ! i) ''Id'') @ '','') @
            joinComma (map (\<lambda>r. stringOf (mapIndex r ''Id'')) (drop (i + 1) recordMap)))"
        using "1.IH"(2) [OF True a [symmetric] _ notlast later] ne by simp
      then show ?thesis
        using True a ne notlast dr rest
        by (subst deleteLoop.simps) (simp add: joinComma_Cons)
    qed
  qed
qed

lemma deleteLoop_fail:
  "\<exists>j. i \<le> j \<and> j < length rs \<and> \<not> nonEmptyString (mapIndex (rs ! j) ''Id'') \<Longrightarrow>
   deleteLoop rs i ids = Inl idNotFound"
proof (induction rs i ids rule: deleteLoop.induct)
  case (1 recordMap i ids)
  from "1.prems" obtain j where j: "i \<le> j" "j < length recordMap"
    "\<not> nonEmptyString (mapIndex (recordMap ! j) ''Id'')" by blast
  then have lt: "i < length recordMap" by simp
  show ?case
  proof (cases "nonEmptyString (mapIndex (recordMap ! i) ''Id'')")
    case False
    then show ?thesis
      using lt by (subst deleteLoop.simps) (auto split: prod.splits dest: assertString_invalid)
  next
    case True
    from assertString_valid [OF True]
    have a: "assertString (mapIndex (recordMap ! i) ''Id'') =
        (stringOf (mapIndex (recordMap ! i) ''Id''), True)"
      and ne: "stringOf (mapIndex (recordMap ! i) ''Id'') \<noteq> []" by simp_all
    from True j have "i \<noteq> j" by auto
    with j have later:
      "\<exists>j. i + 1 \<le> j \<and> j < length recordMap \<and>
         \<not> nonEmptyString (mapIndex (recordMap ! j) ''Id'')"
      by (intro exI [of _ j]) simp
    show ?thesis
    proof (cases "int i = int (length recordMap) - 1")
      case last: True
      show ?thesis
        using "1.IH"(1) [OF lt a [symmetric] _ last later] ne lt a last
        by (subst deleteLoop.simps) simp
    next
      case notlast: False
      show ?thesis
        using "1.IH"(2) [OF lt a [symmetric] _ notlast later] ne lt a notlast
        by (subst deleteLoop.simps) simp
    qed
  qed
qed

lemma exampleDecodeMaps_replicate:
  "exampleDecodeMaps (replicate n (MapStringAny r)) = Inr (replicate n r)"
  by (induction n) simp_all

lemma convert_sliceOf:
  "convertToSliceOfMaps exampleEnv (sliceOf n r) = Return (Inr (replicate n r))"
  by (simp add: convertToSliceOfMaps_def sliceOf_def exampleEnv_def exampleDecodeSlice_def
        exampleDecodeMaps_replicate)

lemma convert_pair:
  "convertToSliceOfMaps exampleEnv (SliceOfAny [MapStringAny r1, MapStringAny r2]) =
     Return (Inr [r1, r2])"
  by (simp add: convertToSliceOfMaps_def exampleEnv_def exampleDecodeSlice_def)

lemma example_marshal: "\<forall>p. \<exists>b. json_Marshal exampleEnv p = Inr b"
  by (simp add: exampleEnv_def)

lemma example_ids:
  "nonEmptyString (mapIndex exampleRecord ''Id'') \<and>
   nonEmptyString (mapIndex exampleRecord ''Ext__c'')"
  by (simp add: exampleRecord_def nonEmptyString_def)

lemma example2_ids:
  "nonEmptyString (mapIndex exampleRecord2 ''Id'') \<and>
   nonEmptyString (mapIndex exampleRecord2 ''Ext__c'')"
  by (simp add: exampleRecord2_def nonEmptyString_def)

lemma composite_tail:
  "(case processSalesforceResponse env resp of
      Some salesforceErrors \<Rightarrow> (Return (Some salesforceErrors), tr)
    | None \<Rightarrow> (Return None, tr)) = (Return (processSalesforceResponse env resp), tr)"
  by (cases "processSalesforceResponse env resp") simp_all

section \<open>Missing identifiers\<close>

text \<open>
  What the code does on a record whose \<^verbatim>\<open>Id\<close> is absent, empty or not a string, a
  \<^verbatim>\<open>nil\<close> record among them: single-record update and delete return the identifier
  error with no call made, and so does collection delete for a list that holds such a
  record (the record-count error when the list is longer than 200).
\<close>

lemma missing_identifier_reads:
  "(convertToMap env obj = Inr m \<and> \<not> nonEmptyString (mapIndex m ''Id'') \<longrightarrow>
      doUpdateOne env auth sObjectName obj = (Return (Some idNotFound), []) \<and>
      doDeleteOne env auth sObjectName obj = (Return (Some idNotFound), [])) \<and>
   (convertToSliceOfMaps env objs = Return (Inr recs) \<and>
    (\<exists>r \<in> set recs. \<not> nonEmptyString (mapIndex r ''Id'')) \<longrightarrow>
      doDeleteCollection env auth sObjectName objs allOrNone =
        (Return (Some (if 200 < length recs then tooManyRecords else idNotFound)), []))"
proof (intro conjI impI)
  assume a: "convertToMap env obj = Inr m \<and> \<not> nonEmptyString (mapIndex m ''Id'')"
  then show "doUpdateOne env auth sObjectName obj = (Return (Some idNotFound), [])"
    by (auto simp: doUpdateOne_def split: prod.splits dest: assertString_invalid)
  from a show "doDeleteOne env auth sObjectName obj = (Return (Some idNotFound), [])"
    by (auto simp: doDeleteOne_def split: prod.splits dest: assertString_invalid)
next
  assume a: "convertToSliceOfMaps env objs = Return (Inr recs) \<and>
    (\<exists>r \<in> set recs. \<not> nonEmptyString (mapIndex r ''Id''))"
  then obtain j where "j < length recs" "\<not> nonEmptyString (mapIndex (recs ! j) ''Id'')"
    by (auto simp: in_set_conv_nth)
  then have ex: "\<exists>j. 0 \<le> j \<and> j < length recs \<and>
      \<not> nonEmptyString (mapIndex (recs ! j) ''Id'')"
    by blast
  from a deleteLoop_fail [OF ex]
  show "doDeleteCollection env auth sObjectName objs allOrNone =
        (Return (Some (if 200 < length recs then tooManyRecords else idNotFound)), [])"
    by (simp add: doDeleteCollection_def)
qed

text \<open>
  Collection update does the same as long as the first record that lacks the identifier
  is an allocated map.
\<close>

lemma missing_identifier_update_allocated:
  assumes "convertToSliceOfMaps env objs = Return (Inr recs)"
    and "length recs \<le> 200"
    and "i < length recs"
    and "\<not> nonEmptyString (mapIndex (recs ! i) ''Id'')"
    and "\<forall>j<i. nonEmptyString (mapIndex (recs ! j) ''Id'')"
    and "recs ! i \<noteq> None"
  shows "doUpdateCollection env auth sObjectName objs allOrNone =
           (Return (Some idNotFound), [])"
  using assms(1,2,6) updateLoop_stops [OF assms(3,4,5), of sObjectName]
  by (simp add: doUpdateCollection_def)

text \<open>
  C6. The claim: a record whose \<^verbatim>\<open>Id\<close> is absent, empty or not a string makes
  single-record update and delete fail with a local error before any network call, and
  the same holds for each record of collection update and collection delete. The code of
  collection update on a list of at most 200 records whose first record without a usable
  \<^verbatim>\<open>Id\<close> is a \<^verbatim>\<open>nil\<close> map: the loop assigns the attributes block into that record
  before it checks the \<^verbatim>\<open>Id\<close>, the assignment panics, and no error is returned (no
  call is made either).
\<close>

theorem doUpdateCollection_nil_record_panics:
  assumes "convertToSliceOfMaps env objs = Return (Inr recs)"
    and "length recs \<le> 200"
    and "i < length recs"
    and "recs ! i = None"
    and "\<forall>j<i. nonEmptyString (mapIndex (recs ! j) ''Id'')"
  shows "\<not> nonEmptyString (mapIndex (recs ! i) ''Id'') \<and>
         doUpdateCollection env auth sObjectName objs allOrNone =
           (Panic ''assignment to entry in nil map'', [])"
proof -
  from assms(4) have lacks: "\<not> nonEmptyString (mapIndex (recs ! i) ''Id'')" by simp
  from updateLoop_stops [OF assms(3) lacks assms(5), of sObjectName] assms(1,2,4) lacks
  show ?thesis by (simp add: doUpdateCollection_def)
qed

text \<open>
  The theorem at the Go value \<^verbatim>\<open>[]map[string]any{r, nil}\<close>, \<open>r\<close> the example record,
  and at \<^verbatim>\<open>[]map[string]any{nil}\<close>.
\<close>

theorem doUpdateCollection_nil_record_panics_witness:
  "doUpdateCollection exampleEnv () ''Account''
     (SliceOfAny [MapStringAny exampleRecord, MapStringAny None]) False =
     (Panic ''assignment to entry in nil map'', []) \<and>
   doUpdateCollection exampleEnv () ''Account'' (sliceOf 1 None) False =
     (Panic ''assignment to entry in nil map'', [])"
proof -
  have len: "length [exampleRecord, None] \<le> 200" by simp
  have at: "1 < length [exampleRecord, None]" by simp
  have nil: "[exampleRecord, None] ! 1 = None" by simp
  have before: "\<forall>j<1. nonEmptyString (mapIndex ([exampleRecord, None] ! j) ''Id'')"
    using example_ids by simp
  have len1: "length (replicate 1 (None :: recordMap)) \<le> 200" by simp
  have at1: "0 < length (replicate 1 (None :: recordMap))" by simp
  have nil1: "replicate 1 (None :: recordMap) ! 0 = None" by simp
  have before1: "\<forall>j<0. nonEmptyString (mapIndex (replicate 1 (None :: recordMap) ! j) ''Id'')"
    by simp
  from doUpdateCollection_nil_record_panics [OF convert_pair len at nil before,
      of "()" "''Account''" False]
    doUpdateCollection_nil_record_panics [OF convert_sliceOf len1 at1 nil1 before1,
      of "()" "''Account''" False]
  show ?thesis by simp
qed

section \<open>The request of collection delete\<close>

text \<open>
  C7, as stated, for every list of records that each carry a non-empty string \<^verbatim>\<open>Id\<close>:
  it fails on a list of 201 such records, which collection delete rejects with the
  record-count error without sending any request.
\<close>

theorem doDeleteCollection_over_limit_sends_nothing:
  "nonEmptyString (mapIndex exampleRecord ''Id'') \<and>
   convertToSliceOfMaps exampleEnv (sliceOf 201 exampleRecord) =
     Return (Inr (replicate 201 exampleRecord)) \<and>
   doDeleteCollection exampleEnv () ''Account'' (sliceOf 201 exampleRecord) True =
     (Return (Some tooManyRecords), [])"
  by (simp add: convert_sliceOf doDeleteCollection_def nonEmptyString_def exampleRecord_def)

text \<open>
  C7, amended. For every list of at most 200 records that each carry a non-empty string
  \<^verbatim>\<open>Id\<close>, collection delete makes exactly one call: a \<^verbatim>\<open>DELETE\<close> request with an
  empty body whose URI is \<^verbatim>\<open>/composite/sobjects/?ids=\<close>, then the identifiers in input
  order joined by commas with no trailing comma, then \<^verbatim>\<open>&allOrNone=\<close> and the flag as
  \<^verbatim>\<open>true\<close> or \<^verbatim>\<open>false\<close>.
\<close>

theorem doDeleteCollection_request:
  assumes "convertToSliceOfMaps env objs = Return (Inr recs)"
    and "length recs \<le> 200"
    and "\<forall>r \<in> set recs. nonEmptyString (mapIndex r ''Id'')"
  shows "snd (doDeleteCollection env auth sObjectName objs allOrNone) =
     [DoRequest \<lparr>reqMethod = ''DELETE'',
        reqUri = ''/composite/sobjects/?ids='' @
                 joinComma (map (\<lambda>r. stringOf (mapIndex r ''Id'')) recs) @
                 ''&allOrNone='' @ (if allOrNone then ''true'' else ''false''),
        reqContent = jsonType, reqAuth = auth, reqBody = ''''\<rparr>]"
proof -
  from assms(3)
  have "\<forall>j. 0 \<le> j \<and> j < length recs \<longrightarrow> nonEmptyString (mapIndex (recs ! j) ''Id'')"
    by simp
  from deleteLoop_ok [OF this, of "''''"]
  have "deleteLoop recs 0 '''' = Inr (joinComma (map (\<lambda>r. stringOf (mapIndex r ''Id'')) recs))"
    by simp
  with assms(1,2) show ?thesis
    by (simp add: doDeleteCollection_def Let_def FormatBool_def split: sum.splits option.splits)
qed

text \<open>The theorem at the two example records, identifiers \<^verbatim>\<open>001\<close> and \<^verbatim>\<open>002\<close>.\<close>

theorem doDeleteCollection_request_witness:
  "snd (doDeleteCollection exampleEnv () ''Account''
      (SliceOfAny [MapStringAny exampleRecord, MapStringAny exampleRecord2]) True) =
     [DoRequest \<lparr>reqMethod = ''DELETE'',
        reqUri = ''/composite/sobjects/?ids=001,002&allOrNone=true'',
        reqContent = ''application/json'', reqAuth = (), reqBody = ''''\<rparr>]"
proof -
  have len: "length [exampleRecord, exampleRecord2] \<le> 200" by simp
  have ids: "\<forall>r \<in> set [exampleRecord, exampleRecord2]. nonEmptyString (mapIndex r ''Id'')"
    using example_ids example2_ids by simp
  from doDeleteCollection_request [OF convert_pair len ids, of "()" "''Account''" True]
  show ?thesis
    by (simp add: stringOf_def exampleRecord_def exampleRecord2_def jsonType_def)
qed

section \<open>The record-count limit of collection operations\<close>

lemma updateLoop_error: "updateLoop n rs = Return (Inl err) \<Longrightarrow> err = idNotFound"
  using updateLoop_ok [of rs n] updateLoop_not_Inr [of rs n]
  by (cases "list_all (\<lambda>r. nonEmptyString (mapIndex r ''Id'')) rs") auto

lemma upsertLoop_error:
  "upsertLoop n f rs = Return (Inl err) \<Longrightarrow> err = externalIdNotFound f n"
  using upsertLoop_ok [of n f rs] upsertLoop_not_Inr [of n f rs]
  by (cases "list_all (\<lambda>r. nonEmptyString (mapIndex (withAttributes n r) f)) rs") auto

lemma deleteLoop_error: "deleteLoop rs 0 ids = Inl err \<Longrightarrow> err = idNotFound"
proof (cases "\<forall>j. 0 \<le> j \<and> j < length rs \<longrightarrow> nonEmptyString (mapIndex (rs ! j) ''Id'')")
  case True
  assume "deleteLoop rs 0 ids = Inl err"
  with deleteLoop_ok [OF True, of ids] show ?thesis by simp
next
  case False
  assume a: "deleteLoop rs 0 ids = Inl err"
  from False have "\<exists>j. 0 \<le> j \<and> j < length rs \<and> \<not> nonEmptyString (mapIndex (rs ! j) ''Id'')"
    by blast
  from deleteLoop_fail [OF this, of ids] a show ?thesis by simp
qed

lemma local_errors_differ:
  "idNotFound \<noteq> tooManyRecords" "externalIdNotFound f n \<noteq> tooManyRecords"
  by (simp_all add: idNotFound_def tooManyRecords_def externalIdNotFound_def)

lemma insertCollection_passes:
  "convertToSliceOfMaps env objs = Return (Inr recs) \<Longrightarrow> length recs \<le> 200 \<Longrightarrow>
   doInsertCollection env auth n objs a \<noteq> (Return (Some tooManyRecords), [])"
  by (auto simp: doInsertCollection_def Let_def
        split: go.splits sum.splits option.splits if_splits)

lemma updateCollection_passes:
  "convertToSliceOfMaps env objs = Return (Inr recs) \<Longrightarrow> length recs \<le> 200 \<Longrightarrow>
   doUpdateCollection env auth n objs a \<noteq> (Return (Some tooManyRecords), [])"
  using local_errors_differ
  by (auto simp: doUpdateCollection_def Let_def
        split: go.splits sum.splits option.splits if_splits dest!: updateLoop_error)

lemma upsertCollection_passes:
  "convertToSliceOfMaps env objs = Return (Inr recs) \<Longrightarrow> length recs \<le> 200 \<Longrightarrow>
   doUpsertCollection env auth n f objs a \<noteq> (Return (Some tooManyRecords), [])"
  using local_errors_differ
  by (auto simp: doUpsertCollection_def Let_def
        split: go.splits sum.splits option.splits if_splits dest!: upsertLoop_error)

lemma deleteCollection_passes:
  "convertToSliceOfMaps env objs = Return (Inr recs) \<Longrightarrow> length recs \<le> 200 \<Longrightarrow>
   doDeleteCollection env auth n objs a \<noteq> (Return (Some tooManyRecords), [])"
  using local_errors_differ
  by (auto simp: doDeleteCollection_def Let_def
        split: go.splits sum.splits option.splits if_splits dest!: deleteLoop_error)

text \<open>
  C2. For each of the four collection operations, a list of more than 200 records is
  rejected with the record-count error and an empty call trace: neither the serializer nor
  the transport is called. A list of exactly 200 records passes that check, so that no
  operation ends in that rejection, and goes on towards the transport: collection insert
  reaches the serializer when its records are allocated maps, and a request is issued by
  collection delete when the records carry identifiers, and by insert, update and upsert
  when the serializer succeeds and the records are allocated maps that carry the
  identifier the operation asks for.
\<close>

theorem collection_limit:
  assumes conv: "convertToSliceOfMaps env objs = Return (Inr recs)"
  shows "(200 < length recs \<longrightarrow>
            doInsertCollection env auth sObjectName objs allOrNone =
              (Return (Some tooManyRecords), []) \<and>
            doUpdateCollection env auth sObjectName objs allOrNone =
              (Return (Some tooManyRecords), []) \<and>
            doUpsertCollection env auth sObjectName fieldName objs allOrNone =
              (Return (Some tooManyRecords), []) \<and>
            doDeleteCollection env auth sObjectName objs allOrNone =
              (Return (Some tooManyRecords), [])) \<and>
         (length recs = 200 \<longrightarrow>
            doInsertCollection env auth sObjectName objs allOrNone \<noteq>
              (Return (Some tooManyRecords), []) \<and>
            doUpdateCollection env auth sObjectName objs allOrNone \<noteq>
              (Return (Some tooManyRecords), []) \<and>
            doUpsertCollection env auth sObjectName fieldName objs allOrNone \<noteq>
              (Return (Some tooManyRecords), []) \<and>
            doDeleteCollection env auth sObjectName objs allOrNone \<noteq>
              (Return (Some tooManyRecords), []) \<and>
            (None \<notin> set recs \<longrightarrow>
               snd (doInsertCollection env auth sObjectName objs allOrNone) \<noteq> []) \<and>
            ((\<forall>r \<in> set recs. nonEmptyString (mapIndex r ''Id'')) \<longrightarrow>
               length (requests (snd (doDeleteCollection env auth sObjectName objs allOrNone))) = 1) \<and>
            ((\<forall>p. \<exists>b. json_Marshal env p = Inr b) \<longrightarrow>
               (None \<notin> set recs \<longrightarrow>
                  length (requests (snd (doInsertCollection env auth sObjectName objs
                    allOrNone))) = 1) \<and>
               ((\<forall>r \<in> set recs. nonEmptyString (mapIndex r ''Id'')) \<longrightarrow>
                  length (requests (snd (doUpdateCollection env auth sObjectName objs
                    allOrNone))) = 1) \<and>
               (fieldName \<noteq> ''attributes'' \<and>
                (\<forall>r \<in> set recs. nonEmptyString (mapIndex r fieldName)) \<longrightarrow>
                  length (requests (snd (doUpsertCollection env auth sObjectName fieldName objs
                    allOrNone))) = 1)))"
proof (intro conjI impI)
  assume big: "200 < length recs"
  with conv show "doInsertCollection env auth sObjectName objs allOrNone =
      (Return (Some tooManyRecords), [])"
    by (simp add: doInsertCollection_def)
  from conv big show "doUpdateCollection env auth sObjectName objs allOrNone =
      (Return (Some tooManyRecords), [])"
    by (simp add: doUpdateCollection_def)
  from conv big show "doUpsertCollection env auth sObjectName fieldName objs allOrNone =
      (Return (Some tooManyRecords), [])"
    by (simp add: doUpsertCollection_def)
  from conv big show "doDeleteCollection env auth sObjectName objs allOrNone =
      (Return (Some tooManyRecords), [])"
    by (simp add: doDeleteCollection_def)
next
  assume len: "length recs = 200"
  then have le: "length recs \<le> 200" by simp
  from insertCollection_passes [OF conv le]
  show "doInsertCollection env auth sObjectName objs allOrNone \<noteq>
      (Return (Some tooManyRecords), [])" .
  from updateCollection_passes [OF conv le]
  show "doUpdateCollection env auth sObjectName objs allOrNone \<noteq>
      (Return (Some tooManyRecords), [])" .
  from upsertCollection_passes [OF conv le]
  show "doUpsertCollection env auth sObjectName fieldName objs allOrNone \<noteq>
      (Return (Some tooManyRecords), [])" .
  from deleteCollection_passes [OF conv le]
  show "doDeleteCollection env auth sObjectName objs allOrNone \<noteq>
      (Return (Some tooManyRecords), [])" .
next
  assume len: "length recs = 200" and alloc: "None \<notin> set recs"
  from conv len insertLoop_allocated [OF alloc, of sObjectName]
  show "snd (doInsertCollection env auth sObjectName objs allOrNone) \<noteq> []"
    by (simp add: doInsertCollection_def Let_def split: sum.splits option.splits)
next
  assume len: "length recs = 200"
    and ids: "\<forall>r \<in> set recs. nonEmptyString (mapIndex r ''Id'')"
  from ids
  have "\<forall>j. 0 \<le> j \<and> j < length recs \<longrightarrow> nonEmptyString (mapIndex (recs ! j) ''Id'')"
    by simp
  from deleteLoop_ok [OF this, of "''''"] conv len
  show "length (requests (snd (doDeleteCollection env auth sObjectName objs allOrNone))) = 1"
    by (simp add: doDeleteCollection_def Let_def split: sum.splits option.splits)
next
  assume len: "length recs = 200" and ser: "\<forall>p. \<exists>b. json_Marshal env p = Inr b"
    and alloc: "None \<notin> set recs"
  from ser obtain b where
    "json_Marshal env (CollectionPayload \<lparr>AllOrNone = FormatBool allOrNone,
       Records = map (withoutId sObjectName) recs\<rparr>) = Inr b"
    by blast
  with conv len insertLoop_allocated [OF alloc, of sObjectName]
  show "length (requests (snd (doInsertCollection env auth sObjectName objs allOrNone))) = 1"
    by (simp add: doInsertCollection_def Let_def split: sum.splits option.splits)
next
  assume len: "length recs = 200" and ser: "\<forall>p. \<exists>b. json_Marshal env p = Inr b"
    and ids: "\<forall>r \<in> set recs. nonEmptyString (mapIndex r ''Id'')"
  from ids have loop: "updateLoop sObjectName recs =
      Return (Inr (map (withAttributes sObjectName) recs))"
    by (intro updateLoop_ok) (simp add: list_all_iff)
  from ser obtain b where
    "json_Marshal env (CollectionPayload \<lparr>AllOrNone = FormatBool allOrNone,
       Records = map (withAttributes sObjectName) recs\<rparr>) = Inr b"
    by blast
  with conv len loop
  show "length (requests (snd (doUpdateCollection env auth sObjectName objs allOrNone))) = 1"
    by (simp add: doUpdateCollection_def Let_def split: sum.splits option.splits)
next
  assume len: "length recs = 200" and ser: "\<forall>p. \<exists>b. json_Marshal env p = Inr b"
    and ids: "fieldName \<noteq> ''attributes'' \<and>
      (\<forall>r \<in> set recs. nonEmptyString (mapIndex r fieldName))"
  from ids have loop: "upsertLoop sObjectName fieldName recs =
      Return (Inr (map (withAttributes sObjectName) recs))"
    by (intro upsertLoop_ok) (simp add: list_all_iff mapIndex_withAttributes)
  from ser obtain b where
    "json_Marshal env (CollectionPayload \<lparr>AllOrNone = FormatBool allOrNone,
       Records = map (withAttributes sObjectName) recs\<rparr>) = Inr b"
    by blast
  with conv len loop
  show "length (requests (snd (doUpsertCollection env auth sObjectName fieldName objs
      allOrNone))) = 1"
    by (simp add: doUpsertCollection_def Let_def split: sum.splits option.splits)
qed

text \<open>The theorem at 201 and at 200 copies of the example record.\<close>

theorem collection_limit_witness:
  "doInsertCollection exampleEnv () ''Account'' (sliceOf 201 exampleRecord) False =
     (Return (Some tooManyRecords), []) \<and>
   doUpdateCollection exampleEnv () ''Account'' (sliceOf 201 exampleRecord) False =
     (Return (Some tooManyRecords), []) \<and>
   doUpsertCollection exampleEnv () ''Account'' ''Ext__c'' (sliceOf 201 exampleRecord) False =
     (Return (Some tooManyRecords), []) \<and>
   doDeleteCollection exampleEnv () ''Account'' (sliceOf 201 exampleRecord) False =
     (Return (Some tooManyRecords), []) \<and>
   doInsertCollection exampleEnv () ''Account'' (sliceOf 200 exampleRecord) False \<noteq>
     (Return (Some tooManyRecords), []) \<and>
   length (requests (snd (doInsertCollection exampleEnv () ''Account''
     (sliceOf 200 exampleRecord) False))) = 1 \<and>
   length (requests (snd (doUpdateCollection exampleEnv () ''Account''
     (sliceOf 200 exampleRecord) False))) = 1 \<and>
   length (requests (snd (doUpsertCollection exampleEnv () ''Account'' ''Ext__c''
     (sliceOf 200 exampleRecord) False))) = 1 \<and>
   length (requests (snd (doDeleteCollection exampleEnv () ''Account''
     (sliceOf 200 exampleRecord) False))) = 1"
proof -
  have over: "200 < length (replicate 201 exampleRecord)" by simp
  have full: "length (replicate 200 exampleRecord) = 200" by simp
  have alloc: "None \<notin> set (replicate 200 exampleRecord)"
    by (simp add: exampleRecord_def)
  have ids: "\<forall>r \<in> set (replicate 200 exampleRecord). nonEmptyString (mapIndex r ''Id'')"
    using example_ids by simp
  have exts: "''Ext__c'' \<noteq> ''attributes'' \<and>
      (\<forall>r \<in> set (replicate 200 exampleRecord). nonEmptyString (mapIndex r ''Ext__c''))"
    using example_ids by simp
  from collection_limit [OF convert_sliceOf, of 201 exampleRecord "()" "''Account''" False
      "''Ext__c''"]
    collection_limit [OF convert_sliceOf, of 200 exampleRecord "()" "''Account''" False
      "''Ext__c''"]
    over full alloc ids exts example_marshal
  show ?thesis by blast
qed

section \<open>Encoding of records for write operations\<close>

lemma insertOne_marshalled:
  "r \<in> set (marshalledRecords (snd (doInsertOne env auth n obj))) \<Longrightarrow>
   mapIndex r ''Id'' = None \<and> mapIndex r ''attributes'' = Some (attributes n)"
  by (auto simp: doInsertOne_def Let_def mapAssign_def mapDelete_def
        split: sum.splits if_splits option.splits)

lemma updateOne_marshalled:
  "r \<in> set (marshalledRecords (snd (doUpdateOne env auth n obj))) \<Longrightarrow>
   mapIndex r ''Id'' = None \<and> mapIndex r ''attributes'' = Some (attributes n)"
  by (auto simp: doUpdateOne_def Let_def mapAssign_def mapDelete_def
        split: sum.splits if_splits prod.splits option.splits)

lemma upsertOne_marshalled:
  "r \<in> set (marshalledRecords (snd (doUpsertOne env auth n f obj))) \<Longrightarrow>
   mapIndex r ''Id'' = None \<and> mapIndex r f = None \<and>
   (f \<noteq> ''attributes'' \<longrightarrow> mapIndex r ''attributes'' = Some (attributes n))"
  by (auto simp: doUpsertOne_def Let_def mapAssign_def mapDelete_def
        split: sum.splits if_splits prod.splits option.splits)

lemma insertLoop_Return:
  "insertLoop n rs = Return rs' \<Longrightarrow> None \<notin> set rs \<and> rs' = map (withoutId n) rs"
  using insertLoop_allocated [of rs n] insertLoop_nil [of rs n]
  by (cases "None \<in> set rs") auto

lemma insertCollection_marshalled:
  assumes "r \<in> set (marshalledRecords (snd (doInsertCollection env auth n objs a)))"
  shows "mapIndex r ''Id'' = None \<and> mapIndex r ''attributes'' = Some (attributes n)"
proof -
  from assms obtain rs where rs: "r \<in> set (map (withoutId n) rs)" "None \<notin> set rs"
    by (auto simp: doInsertCollection_def Let_def
          split: sum.splits if_splits go.splits option.splits dest!: insertLoop_Return)
  then obtain r0 where "r0 \<in> set rs" "r = withoutId n r0" by auto
  with rs(2) have "r0 \<noteq> None" "r = withoutId n r0" by (metis, simp)
  then show ?thesis by (simp add: mapIndex_withoutId)
qed

lemma updateCollection_marshalled:
  assumes "r \<in> set (marshalledRecords (snd (doUpdateCollection env auth n objs a)))"
  shows "nonEmptyString (mapIndex r ''Id'') \<and> mapIndex r ''attributes'' = Some (attributes n)"
proof -
  from assms obtain rs where
    rs: "r \<in> set (map (withAttributes n) rs)"
      "list_all (\<lambda>r. nonEmptyString (mapIndex r ''Id'')) rs"
    by (auto simp: doUpdateCollection_def Let_def
          split: sum.splits if_splits go.splits option.splits dest!: updateLoop_Inr)
  then obtain r0 where r0: "r0 \<in> set rs" "r = withAttributes n r0" by auto
  with rs(2) have v: "nonEmptyString (mapIndex r0 ''Id'')" by (simp add: list_all_iff)
  then have "r0 \<noteq> None" by (auto dest: nonEmptyString_allocated)
  with v r0 show ?thesis
    by (simp add: mapIndex_withAttributes mapIndex_withAttributes_attributes)
qed

lemma upsertCollection_marshalled:
  assumes "r \<in> set (marshalledRecords (snd (doUpsertCollection env auth n f objs a)))"
  shows "nonEmptyString (mapIndex r f) \<and> mapIndex r ''attributes'' = Some (attributes n)"
proof -
  from assms obtain rs where
    rs: "r \<in> set (map (withAttributes n) rs)"
      "list_all (\<lambda>r. nonEmptyString (mapIndex (withAttributes n r) f)) rs"
    by (auto simp: doUpsertCollection_def Let_def
          split: sum.splits if_splits go.splits option.splits dest!: upsertLoop_Inr)
  then obtain r0 where r0: "r0 \<in> set rs" "r = withAttributes n r0" by auto
  with rs(2) have v: "nonEmptyString (mapIndex r f)" by (simp add: list_all_iff)
  then have "r \<noteq> None" by (auto dest: nonEmptyString_allocated)
  with r0 have "r0 \<noteq> None" by (auto simp: withAttributes_def)
  with v r0 show ?thesis by (simp add: mapIndex_withAttributes_attributes)
qed

lemma insertOne_exact:
  "convertToMap env obj = Inr (Some f) \<Longrightarrow>
   marshalledRecords (snd (doInsertOne env auth n obj)) = [withoutId n (Some f)]"
  by (auto simp: doInsertOne_def Let_def mapAssign_def mapDelete_def withoutId_def fun_eq_iff
        split: sum.splits)

lemma updateOne_exact:
  "convertToMap env obj = Inr (Some f) \<Longrightarrow> nonEmptyString (f ''Id'') \<Longrightarrow>
   marshalledRecords (snd (doUpdateOne env auth n obj)) = [withoutId n (Some f)]"
  by (auto simp: doUpdateOne_def Let_def mapAssign_def mapDelete_def withoutId_def fun_eq_iff
        split: sum.splits dest!: assertString_valid)

lemma upsertOne_exact:
  "convertToMap env obj = Inr (Some f) \<Longrightarrow> nonEmptyString (f k) \<Longrightarrow>
   marshalledRecords (snd (doUpsertOne env auth n k obj)) =
     [Some ((f(''attributes'' \<mapsto> attributes n))(''Id'' := None, k := None))]"
  by (auto simp: doUpsertOne_def Let_def mapAssign_def mapDelete_def
        split: sum.splits dest!: assertString_valid)

lemma insertCollection_exact:
  "convertToSliceOfMaps env objs = Return (Inr recs) \<Longrightarrow> length recs \<le> 200 \<Longrightarrow>
   None \<notin> set recs \<Longrightarrow>
   marshalledRecords (snd (doInsertCollection env auth n objs a)) = map (withoutId n) recs"
  by (simp add: doInsertCollection_def Let_def insertLoop_allocated composite_tail
        split: sum.splits)

lemma updateCollection_exact:
  "convertToSliceOfMaps env objs = Return (Inr recs) \<Longrightarrow> length recs \<le> 200 \<Longrightarrow>
   \<forall>r \<in> set recs. nonEmptyString (mapIndex r ''Id'') \<Longrightarrow>
   marshalledRecords (snd (doUpdateCollection env auth n objs a)) = map (withAttributes n) recs"
  by (simp add: doUpdateCollection_def Let_def updateLoop_ok list_all_iff composite_tail
        split: sum.splits)

lemma upsertCollection_exact:
  "convertToSliceOfMaps env objs = Return (Inr recs) \<Longrightarrow> length recs \<le> 200 \<Longrightarrow>
   k \<noteq> ''attributes'' \<Longrightarrow> \<forall>r \<in> set recs. nonEmptyString (mapIndex r k) \<Longrightarrow>
   marshalledRecords (snd (doUpsertCollection env auth n k objs a)) =
     map (withAttributes n) recs"
  by (simp add: doUpsertCollection_def Let_def upsertLoop_ok list_all_iff
        mapIndex_withAttributes composite_tail split: sum.splits)

text \<open>
  C1, as stated, for every write operation: it fails for collection update and collection
  upsert, and for a single-record upsert on a field named \<^verbatim>\<open>attributes\<close>. In a
  collection update of the two example records, the records handed to the serializer
  still hold their \<^verbatim>\<open>Id\<close>, \<^verbatim>\<open>001\<close> and \<^verbatim>\<open>002\<close>; in a collection upsert on
  \<^verbatim>\<open>Ext__c\<close> the first still holds that field (and its \<^verbatim>\<open>Id\<close>); the record of a
  single-record upsert on the field \<^verbatim>\<open>attributes\<close> is handed over without an
  attributes block.
\<close>

theorem collection_update_upsert_keep_identifiers:
  "length (marshalledRecords (snd (doUpdateCollection exampleEnv () ''Account''
       (SliceOfAny [MapStringAny exampleRecord, MapStringAny exampleRecord2]) False))) = 2 \<and>
   mapIndex (marshalledRecords (snd (doUpdateCollection exampleEnv () ''Account''
       (SliceOfAny [MapStringAny exampleRecord, MapStringAny exampleRecord2]) False)) ! 0)
      ''Id'' = Some (AString ''001'') \<and>
   mapIndex (marshalledRecords (snd (doUpdateCollection exampleEnv () ''Account''
       (SliceOfAny [MapStringAny exampleRecord, MapStringAny exampleRecord2]) False)) ! 1)
      ''Id'' = Some (AString ''002'') \<and>
   length (marshalledRecords (snd (doUpsertCollection exampleEnv () ''Account'' ''Ext__c''
       (SliceOfAny [MapStringAny exampleRecord, MapStringAny exampleRecord2]) False))) = 2 \<and>
   mapIndex (marshalledRecords (snd (doUpsertCollection exampleEnv () ''Account'' ''Ext__c''
       (SliceOfAny [MapStringAny exampleRecord, MapStringAny exampleRecord2]) False)) ! 0)
      ''Ext__c'' = Some (AString ''E1'') \<and>
   mapIndex (marshalledRecords (snd (doUpsertCollection exampleEnv () ''Account'' ''Ext__c''
       (SliceOfAny [MapStringAny exampleRecord, MapStringAny exampleRecord2]) False)) ! 0)
      ''Id'' = Some (AString ''001'') \<and>
   length (marshalledRecords (snd (doUpsertOne exampleEnv () ''Account'' ''attributes''
       (MapStringAny attributesRecord)))) = 1 \<and>
   mapIndex (marshalledRecords (snd (doUpsertOne exampleEnv () ''Account'' ''attributes''
       (MapStringAny attributesRecord))) ! 0) ''attributes'' = None"
proof -
  have len: "length [exampleRecord, exampleRecord2] \<le> 200" by simp
  have ids: "\<forall>r \<in> set [exampleRecord, exampleRecord2]. nonEmptyString (mapIndex r ''Id'')"
    using example_ids example2_ids by simp
  have exts: "\<forall>r \<in> set [exampleRecord, exampleRecord2]. nonEmptyString (mapIndex r ''Ext__c'')"
    using example_ids example2_ids by simp
  have ne: "''Ext__c'' \<noteq> ''attributes''" by simp
  have single: "convertToMap exampleEnv (MapStringAny attributesRecord) =
      Inr (Some [''attributes'' \<mapsto> AString ''A1''])"
    by (simp add: convertToMap_def attributesRecord_def)
  have held: "nonEmptyString ([''attributes'' \<mapsto> AString ''A1''] ''attributes'')"
    by (simp add: nonEmptyString_def)
  show ?thesis
    by (simp add: updateCollection_exact [OF convert_pair len ids]
          upsertCollection_exact [OF convert_pair len ne exts]
          upsertOne_exact [OF single held])
       (simp add: withAttributes_def exampleRecord_def exampleRecord2_def)
qed

text \<open>
  C1, amended. Every record that single-record insert, single-record update, single-record
  upsert or collection insert hands to the serializer has \<^verbatim>\<open>Id\<close> removed and the
  attributes block with the object name injected, and single-record upsert removes the
  external-id field as well; the attributes block is not promised for a single-record
  upsert whose external-id field is itself named \<^verbatim>\<open>attributes\<close>. Every record that
  collection update or collection upsert hands to the serializer has the attributes block
  injected and still carries the field the operation checks: collection update keeps each
  record's own non-empty string \<^verbatim>\<open>Id\<close>, and collection upsert keeps each record's own
  non-empty string external-id field. In each case the records handed over are the input
  records, in input order, changed in exactly that way.
\<close>

theorem write_operations_encoding:
  "(\<forall>r \<in> set (marshalledRecords (snd (doInsertOne env auth sObjectName obj))).
      mapIndex r ''Id'' = None \<and> mapIndex r ''attributes'' = Some (attributes sObjectName)) \<and>
   (\<forall>r \<in> set (marshalledRecords (snd (doUpdateOne env auth sObjectName obj))).
      mapIndex r ''Id'' = None \<and> mapIndex r ''attributes'' = Some (attributes sObjectName)) \<and>
   (\<forall>r \<in> set (marshalledRecords (snd (doUpsertOne env auth sObjectName fieldName obj))).
      mapIndex r ''Id'' = None \<and> mapIndex r fieldName = None \<and>
      (fieldName \<noteq> ''attributes'' \<longrightarrow>
         mapIndex r ''attributes'' = Some (attributes sObjectName))) \<and>
   (\<forall>r \<in> set (marshalledRecords (snd (doInsertCollection env auth sObjectName objs allOrNone))).
      mapIndex r ''Id'' = None \<and> mapIndex r ''attributes'' = Some (attributes sObjectName)) \<and>
   (\<forall>r \<in> set (marshalledRecords (snd (doUpdateCollection env auth sObjectName objs allOrNone))).
      nonEmptyString (mapIndex r ''Id'') \<and>
      mapIndex r ''attributes'' = Some (attributes sObjectName)) \<and>
   (\<forall>r \<in> set (marshalledRecords (snd (doUpsertCollection env auth sObjectName fieldName objs
        allOrNone))).
      nonEmptyString (mapIndex r fieldName) \<and>
      mapIndex r ''attributes'' = Some (attributes sObjectName)) \<and>
   (convertToMap env obj = Inr (Some f) \<longrightarrow>
      marshalledRecords (snd (doInsertOne env auth sObjectName obj)) =
        [Some ((f(''Id'' := None))(''attributes'' \<mapsto> attributes sObjectName))]) \<and>
   (convertToMap env obj = Inr (Some f) \<and> nonEmptyString (f ''Id'') \<longrightarrow>
      marshalledRecords (snd (doUpdateOne env auth sObjectName obj)) =
        [Some ((f(''Id'' := None))(''attributes'' \<mapsto> attributes sObjectName))]) \<and>
   (convertToMap env obj = Inr (Some f) \<and> nonEmptyString (f fieldName) \<longrightarrow>
      marshalledRecords (snd (doUpsertOne env auth sObjectName fieldName obj)) =
        [Some ((f(''attributes'' \<mapsto> attributes sObjectName))
                 (''Id'' := None, fieldName := None))]) \<and>
   (convertToSliceOfMaps env objs = Return (Inr recs) \<and> length recs \<le> 200 \<longrightarrow>
      (None \<notin> set recs \<longrightarrow>
         marshalledRecords (snd (doInsertCollection env auth sObjectName objs allOrNone)) =
           map (map_option (\<lambda>g. (g(''Id'' := None))
                  (''attributes'' \<mapsto> attributes sObjectName))) recs) \<and>
      ((\<forall>r \<in> set recs. nonEmptyString (mapIndex r ''Id'')) \<longrightarrow>
         marshalledRecords (snd (doUpdateCollection env auth sObjectName objs allOrNone)) =
           map (map_option (\<lambda>g. g(''attributes'' \<mapsto> attributes sObjectName))) recs) \<and>
      (fieldName \<noteq> ''attributes'' \<and>
       (\<forall>r \<in> set recs. nonEmptyString (mapIndex r fieldName)) \<longrightarrow>
         marshalledRecords (snd (doUpsertCollection env auth sObjectName fieldName objs
           allOrNone)) =
           map (map_option (\<lambda>g. g(''attributes'' \<mapsto> attributes sObjectName))) recs))"
proof -
  have insertOne: "\<forall>r \<in> set (marshalledRecords (snd (doInsertOne env auth sObjectName obj))).
      mapIndex r ''Id'' = None \<and> mapIndex r ''attributes'' = Some (attributes sObjectName)"
    by (intro ballI) (erule insertOne_marshalled)
  have updateOne: "\<forall>r \<in> set (marshalledRecords (snd (doUpdateOne env auth sObjectName obj))).
      mapIndex r ''Id'' = None \<and> mapIndex r ''attributes'' = Some (attributes sObjectName)"
    by (intro ballI) (erule updateOne_marshalled)
  have upsertOne:
    "\<forall>r \<in> set (marshalledRecords (snd (doUpsertOne env auth sObjectName fieldName obj))).
      mapIndex r ''Id'' = None \<and> mapIndex r fieldName = None \<and>
      (fieldName \<noteq> ''attributes'' \<longrightarrow>
         mapIndex r ''attributes'' = Some (attributes sObjectName))"
    by (intro ballI) (erule upsertOne_marshalled)
  have insertCollection:
    "\<forall>r \<in> set (marshalledRecords (snd (doInsertCollection env auth sObjectName objs allOrNone))).
      mapIndex r ''Id'' = None \<and> mapIndex r ''attributes'' = Some (attributes sObjectName)"
    by (intro ballI) (erule insertCollection_marshalled)
  have updateCollection:
    "\<forall>r \<in> set (marshalledRecords (snd (doUpdateCollection env auth sObjectName objs allOrNone))).
      nonEmptyString (mapIndex r ''Id'') \<and>
      mapIndex r ''attributes'' = Some (attributes sObjectName)"
    by (intro ballI) (erule updateCollection_marshalled)
  have upsertCollection:
    "\<forall>r \<in> set (marshalledRecords (snd (doUpsertCollection env auth sObjectName fieldName objs
        allOrNone))).
      nonEmptyString (mapIndex r fieldName) \<and>
      mapIndex r ''attributes'' = Some (attributes sObjectName)"
    by (intro ballI) (erule upsertCollection_marshalled)
  have exactInsertOne: "convertToMap env obj = Inr (Some f) \<longrightarrow>
      marshalledRecords (snd (doInsertOne env auth sObjectName obj)) =
        [Some ((f(''Id'' := None))(''attributes'' \<mapsto> attributes sObjectName))]"
    using insertOne_exact [of env obj f auth sObjectName] by (simp add: withoutId_def)
  have exactUpdateOne: "convertToMap env obj = Inr (Some f) \<and> nonEmptyString (f ''Id'') \<longrightarrow>
      marshalledRecords (snd (doUpdateOne env auth sObjectName obj)) =
        [Some ((f(''Id'' := None))(''attributes'' \<mapsto> attributes sObjectName))]"
    using updateOne_exact [of env obj f auth sObjectName] by (simp add: withoutId_def)
  have exactUpsertOne: "convertToMap env obj = Inr (Some f) \<and> nonEmptyString (f fieldName) \<longrightarrow>
      marshalledRecords (snd (doUpsertOne env auth sObjectName fieldName obj)) =
        [Some ((f(''attributes'' \<mapsto> attributes sObjectName))
                 (''Id'' := None, fieldName := None))]"
    using upsertOne_exact [of env obj f fieldName auth sObjectName] by simp
  have exactCollections:
    "convertToSliceOfMaps env objs = Return (Inr recs) \<and> length recs \<le> 200 \<longrightarrow>
      (None \<notin> set recs \<longrightarrow>
         marshalledRecords (snd (doInsertCollection env auth sObjectName objs allOrNone)) =
           map (map_option (\<lambda>g. (g(''Id'' := None))
                  (''attributes'' \<mapsto> attributes sObjectName))) recs) \<and>
      ((\<forall>r \<in> set recs. nonEmptyString (mapIndex r ''Id'')) \<longrightarrow>
         marshalledRecords (snd (doUpdateCollection env auth sObjectName objs allOrNone)) =
           map (map_option (\<lambda>g. g(''attributes'' \<mapsto> attributes sObjectName))) recs) \<and>
      (fieldName \<noteq> ''attributes'' \<and>
       (\<forall>r \<in> set recs. nonEmptyString (mapIndex r fieldName)) \<longrightarrow>
         marshalledRecords (snd (doUpsertCollection env auth sObjectName fieldName objs
           allOrNone)) =
           map (map_option (\<lambda>g. g(''attributes'' \<mapsto> attributes sObjectName))) recs)"
    using insertCollection_exact [of env objs recs auth sObjectName allOrNone]
      updateCollection_exact [of env objs recs auth sObjectName allOrNone]
      upsertCollection_exact [of env objs recs fieldName auth sObjectName allOrNone]
    unfolding withoutId_def withAttributes_def by blast
  from insertOne updateOne upsertOne insertCollection updateCollection upsertCollection
    exactInsertOne exactUpdateOne exactUpsertOne exactCollections
  show ?thesis by (intro conjI)
qed

text \<open>
  The theorem at the example records: each operation hands over the records it was given,
  in order, encoded as stated; in particular the second record of the collection update
  carries its own \<^verbatim>\<open>Id\<close>, \<^verbatim>\<open>002\<close>.
\<close>

theorem write_operations_encoding_witness:
  "length (marshalledRecords (snd (doInsertOne exampleEnv () ''Account''
       (MapStringAny exampleRecord)))) = 1 \<and>
   mapIndex (marshalledRecords (snd (doInsertOne exampleEnv () ''Account''
       (MapStringAny exampleRecord))) ! 0) ''Id'' = None \<and>
   mapIndex (marshalledRecords (snd (doInsertOne exampleEnv () ''Account''
       (MapStringAny exampleRecord))) ! 0) ''Ext__c'' = Some (AString ''E1'') \<and>
   mapIndex (marshalledRecords (snd (doUpdateOne exampleEnv () ''Account''
       (MapStringAny exampleRecord))) ! 0) ''attributes'' = Some (attributes ''Account'') \<and>
   mapIndex (marshalledRecords (snd (doUpsertOne exampleEnv () ''Account'' ''Ext__c''
       (MapStringAny exampleRecord))) ! 0) ''Ext__c'' = None \<and>
   mapIndex (marshalledRecords (snd (doUpsertOne exampleEnv () ''Account'' ''Ext__c''
       (MapStringAny exampleRecord))) ! 0) ''attributes'' = Some (attributes ''Account'') \<and>
   length (marshalledRecords (snd (doInsertCollection exampleEnv () ''Account''
       (SliceOfAny [MapStringAny exampleRecord, MapStringAny exampleRecord2]) False))) = 2 \<and>
   mapIndex (marshalledRecords (snd (doInsertCollection exampleEnv () ''Account''
       (SliceOfAny [MapStringAny exampleRecord, MapStringAny exampleRecord2]) False)) ! 1)
       ''Id'' = None \<and>
   mapIndex (marshalledRecords (snd (doInsertCollection exampleEnv () ''Account''
       (SliceOfAny [MapStringAny exampleRecord, MapStringAny exampleRecord2]) False)) ! 1)
       ''Ext__c'' = Some (AString ''E2'') \<and>
   mapIndex (marshalledRecords (snd (doUpdateCollection exampleEnv () ''Account''
       (SliceOfAny [MapStringAny exampleRecord, MapStringAny exampleRecord2]) False)) ! 1)
       ''Id'' = Some (AString ''002'') \<and>
   mapIndex (marshalledRecords (snd (doUpsertCollection exampleEnv () ''Account''
       ''Ext__c'' (SliceOfAny [MapStringAny exampleRecord, MapStringAny exampleRecord2]) False))
       ! 1) ''Ext__c'' = Some (AString ''E2'') \<and>
   mapIndex (marshalledRecords (snd (doUpsertCollection exampleEnv () ''Account''
       ''Ext__c'' (SliceOfAny [MapStringAny exampleRecord, MapStringAny exampleRecord2]) False))
       ! 1) ''attributes'' = Some (attributes ''Account'')"
proof -
  let ?objs = "SliceOfAny [MapStringAny exampleRecord, MapStringAny exampleRecord2]"
  let ?f = "[''Id'' \<mapsto> AString ''001'', ''Ext__c'' \<mapsto> AString ''E1'']"
  have one: "convertToMap exampleEnv (MapStringAny exampleRecord) = Inr (Some ?f)"
    by (simp add: convertToMap_def exampleRecord_def)
  have held: "nonEmptyString (?f ''Id'')" "nonEmptyString (?f ''Ext__c'')"
    by (simp_all add: nonEmptyString_def)
  have len: "length [exampleRecord, exampleRecord2] \<le> 200" by simp
  have alloc: "None \<notin> set [exampleRecord, exampleRecord2]"
    by (simp add: exampleRecord_def exampleRecord2_def)
  have ids: "\<forall>r \<in> set [exampleRecord, exampleRecord2]. nonEmptyString (mapIndex r ''Id'')"
    using example_ids example2_ids by simp
  have exts: "\<forall>r \<in> set [exampleRecord, exampleRecord2]. nonEmptyString (mapIndex r ''Ext__c'')"
    using example_ids example2_ids by simp
  have ne: "''Ext__c'' \<noteq> ''attributes''" by simp
  note enc = write_operations_encoding [where env = exampleEnv and auth = "()"
      and sObjectName = "''Account''" and obj = "MapStringAny exampleRecord"
      and fieldName = "''Ext__c''" and objs = ?objs and allOrNone = False and f = ?f
      and recs = "[exampleRecord, exampleRecord2]"]
  from enc one have e1: "marshalledRecords (snd (doInsertOne exampleEnv () ''Account''
      (MapStringAny exampleRecord))) =
      [Some ((?f(''Id'' := None))(''attributes'' \<mapsto> attributes ''Account''))]"
    by blast
  from enc one held have e2: "marshalledRecords (snd (doUpdateOne exampleEnv () ''Account''
      (MapStringAny exampleRecord))) =
      [Some ((?f(''Id'' := None))(''attributes'' \<mapsto> attributes ''Account''))]"
    by blast
  from enc one held have e3: "marshalledRecords (snd (doUpsertOne exampleEnv () ''Account''
      ''Ext__c'' (MapStringAny exampleRecord))) =
      [Some ((?f(''attributes'' \<mapsto> attributes ''Account''))
               (''Id'' := None, ''Ext__c'' := None))]"
    by blast
  from enc convert_pair len alloc
  have e4: "marshalledRecords (snd (doInsertCollection exampleEnv () ''Account'' ?objs False)) =
      map (map_option (\<lambda>g. (g(''Id'' := None))(''attributes'' \<mapsto> attributes ''Account'')))
        [exampleRecord, exampleRecord2]"
    by blast
  from enc convert_pair len ids
  have e5: "marshalledRecords (snd (doUpdateCollection exampleEnv () ''Account'' ?objs False)) =
      map (map_option (\<lambda>g. g(''attributes'' \<mapsto> attributes ''Account'')))
        [exampleRecord, exampleRecord2]"
    by blast
  from enc convert_pair len exts ne
  have e6: "marshalledRecords (snd (doUpsertCollection exampleEnv () ''Account'' ''Ext__c''
      ?objs False)) =
      map (map_option (\<lambda>g. g(''attributes'' \<mapsto> attributes ''Account'')))
        [exampleRecord, exampleRecord2]"
    by blast
  show ?thesis
    unfolding e1 e2 e3 e4 e5 e6
    by (simp add: exampleRecord_def exampleRecord2_def)
qed

section \<open>Interpretation of a composite response\<close>

lemma failingRecords_set:
  "((i, errs) \<in> set (failingRecords k results)) =
     (k \<le> i \<and> i - k < length results \<and> results ! (i - k) = RecordFailure errs)"
proof (induction results arbitrary: k)
  case Nil
  then show ?case by simp
next
  case (Cons x xs)
  show ?case
  proof (cases x)
    case (RecordSuccess ident)
    show ?thesis
      using Cons [of "Suc k"] RecordSuccess
      by (cases "i = k") (auto simp: nth_Cons' Suc_diff_le)
  next
    case (RecordFailure es)
    show ?thesis
      using Cons [of "Suc k"] RecordFailure
      by (cases "i = k") (auto simp: nth_Cons' Suc_diff_le)
  qed
qed

lemma failingRecords_lower: "(i, errs) \<in> set (failingRecords k results) \<Longrightarrow> k \<le> i"
  by (simp add: failingRecords_set)

lemma failingRecords_sorted: "sorted_wrt (<) (map fst (failingRecords k results))"
proof (induction results arbitrary: k)
  case Nil
  then show ?case by simp
next
  case (Cons x xs)
  show ?case
    using Cons [of "Suc k"]
    by (cases x) (auto dest!: failingRecords_lower)
qed

lemma failingRecords_Nil: "(failingRecords k results = []) = (\<not> list_ex isFailure results)"
  by (induction k results rule: failingRecords.induct) (simp_all add: isFailure_def)

lemma processSalesforceResponse_eq:
  "processSalesforceResponse env resp =
     (if list_ex isFailure (decodeResults env resp)
      then Some (RemoteApplicationError (failingRecords 0 (decodeResults env resp)))
      else None)"
  using failingRecords_Nil [of 0 "decodeResults env resp"]
  by (auto simp: processSalesforceResponse_def split: list.splits)

lemma insertCollection_ok:
  assumes "DoRequest r \<in> set (snd (doInsertCollection env auth n objs a))"
    and "doRequest env r = Inr resp" and "StatusCode resp = StatusOK"
  shows "fst (doInsertCollection env auth n objs a) = Return (processSalesforceResponse env resp)"
  using assms
  by (auto simp: doInsertCollection_def Let_def composite_tail
        split: go.splits sum.splits if_splits)

lemma updateCollection_ok:
  assumes "DoRequest r \<in> set (snd (doUpdateCollection env auth n objs a))"
    and "doRequest env r = Inr resp" and "StatusCode resp = StatusOK"
  shows "fst (doUpdateCollection env auth n objs a) = Return (processSalesforceResponse env resp)"
  using assms
  by (auto simp: doUpdateCollection_def Let_def composite_tail
        split: go.splits sum.splits if_splits)

lemma upsertCollection_ok:
  assumes "DoRequest r \<in> set (snd (doUpsertCollection env auth n f objs a))"
    and "doRequest env r = Inr resp" and "StatusCode resp = StatusOK"
  shows "fst (doUpsertCollection env auth n f objs a) = Return (processSalesforceResponse env resp)"
  using assms
  by (auto simp: doUpsertCollection_def Let_def composite_tail
        split: go.splits sum.splits if_splits)

lemma deleteCollection_ok:
  assumes "DoRequest r \<in> set (snd (doDeleteCollection env auth n objs a))"
    and "doRequest env r = Inr resp" and "StatusCode resp = StatusOK"
  shows "fst (doDeleteCollection env auth n objs a) = Return (processSalesforceResponse env resp)"
  using assms
  by (auto simp: doDeleteCollection_def Let_def composite_tail
        split: go.splits sum.splits if_splits)

text \<open>
  C8. Let a collection operation issue its request and the transport answer it with
  status OK. If some entry of the per-record response list reports failure, the operation
  returns the aggregated error; the aggregate lists, in increasing index order, exactly
  the pairs of an index and the error descriptors (code and message) of the entry at that
  index, for every failing entry, the first and all later ones. If no entry reports
  failure, the operation returns no error.
\<close>

theorem collection_response_aggregation:
  assumes "res = doInsertCollection env auth sObjectName objs allOrNone \<or>
           res = doUpdateCollection env auth sObjectName objs allOrNone \<or>
           res = doUpsertCollection env auth sObjectName fieldName objs allOrNone \<or>
           res = doDeleteCollection env auth sObjectName objs allOrNone"
    and "DoRequest r \<in> set (snd res)"
    and "doRequest env r = Inr resp"
    and "StatusCode resp = StatusOK"
  shows "fst res =
           Return (if list_ex isFailure (decodeResults env resp)
                   then Some (RemoteApplicationError (failingRecords 0 (decodeResults env resp)))
                   else None) \<and>
         (\<forall>i errs. ((i, errs) \<in> set (failingRecords 0 (decodeResults env resp))) =
            (i < length (decodeResults env resp) \<and>
             decodeResults env resp ! i = RecordFailure errs)) \<and>
         sorted_wrt (<) (map fst (failingRecords 0 (decodeResults env resp)))"
proof -
  have "fst res = Return (processSalesforceResponse env resp)"
    using assms(1)
  proof (elim disjE)
    assume "res = doInsertCollection env auth sObjectName objs allOrNone"
    with assms(2-4) show ?thesis by (simp add: insertCollection_ok)
  next
    assume "res = doUpdateCollection env auth sObjectName objs allOrNone"
    with assms(2-4) show ?thesis by (simp add: updateCollection_ok)
  next
    assume "res = doUpsertCollection env auth sObjectName fieldName objs allOrNone"
    with assms(2-4) show ?thesis by (simp add: upsertCollection_ok)
  next
    assume "res = doDeleteCollection env auth sObjectName objs allOrNone"
    with assms(2-4) show ?thesis by (simp add: deleteCollection_ok)
  qed
  then show ?thesis
    by (simp add: processSalesforceResponse_eq failingRecords_set failingRecords_sorted)
qed

text \<open>
  The theorem at a collection insert of two records answered with three entries of which
  the one at index 1 fails.
\<close>

theorem collection_response_aggregation_witness:
  "fst (doInsertCollection exampleEnv () ''Account''
      (SliceOfAny [MapStringAny exampleRecord, MapStringAny exampleRecord2]) False) =
     Return (Some (RemoteApplicationError
       [(1, [\<lparr>errorCode = ''REQUIRED_FIELD_MISSING'', message = ''Name''\<rparr>])]))"
proof -
  let ?objs = "SliceOfAny [MapStringAny exampleRecord, MapStringAny exampleRecord2]"
  let ?r = "\<lparr>reqMethod = ''POST'', reqUri = ''/composite/sobjects/'',
             reqContent = jsonType, reqAuth = (), reqBody = ''{}''\<rparr>"
  have alloc: "None \<notin> set [exampleRecord, exampleRecord2]"
    by (simp add: exampleRecord_def exampleRecord2_def)
  have sent: "DoRequest ?r \<in> set (snd (doInsertCollection exampleEnv () ''Account'' ?objs False))"
    by (simp add: doInsertCollection_def convert_pair Let_def insertLoop_allocated [OF alloc]
          composite_tail del: insertLoop.simps)
       (simp add: exampleEnv_def exampleResponse_def StatusOK_def Let_def composite_tail)
  have answer: "doRequest exampleEnv ?r = Inr exampleResponse"
    by (simp add: exampleEnv_def)
  have ok: "StatusCode exampleResponse = StatusOK"
    by (simp add: exampleResponse_def StatusOK_def)
  have which: "doInsertCollection exampleEnv () ''Account'' ?objs False =
      doInsertCollection exampleEnv () ''Account'' ?objs False \<or>
    doInsertCollection exampleEnv () ''Account'' ?objs False =
      doUpdateCollection exampleEnv () ''Account'' ?objs False \<or>
    doInsertCollection exampleEnv () ''Account'' ?objs False =
      doUpsertCollection exampleEnv () ''Account'' ''Ext__c'' ?objs False \<or>
    doInsertCollection exampleEnv () ''Account'' ?objs False =
      doDeleteCollection exampleEnv () ''Account'' ?objs False"
    by simp
  from collection_response_aggregation [OF which sent answer ok]
  show ?thesis
    by (simp add: exampleEnv_def exampleResults_def isFailure_def)
qed

end
